theory Spec2Isabelle
  imports Main "HOL-Library.AList" "HOL-Library.Sublist"
begin

section \<open>Values, objects and the collaborators of \<open>src/index.js\<close>\<close>

text \<open>
  The module \<open>src/index.js\<close> is a thin layer over three collaborators that are not part
  of it: the HTTP transport (\<open>node-fetch\<close>), the metrics tracker (\<open>nodejs-metrics\<close>) and a
  logger, plus the constants of \<open>./constants\<close> and a few built-ins of the language
  (\<open>new URL\<close>, \<open>JSON.parse\<close>, \<open>Buffer.toString\<close>, \<open>process.hrtime\<close>). The constants are
  a record of parameters; the transport and the built-ins are functions of a second
  record, the world; everything the module changes is a field of an explicit state.
\<close>

datatype jsval = JUndefined | JNull | JBool bool | JNum int | JStr string | JRef nat

text \<open>JavaScript's ToBoolean on the values above.\<close>

fun truthy :: "jsval \<Rightarrow> bool" where
  "truthy JUndefined = False"
| "truthy JNull = False"
| "truthy (JBool b) = b"
| "truthy (JNum n) = (n \<noteq> 0)"
| "truthy (JStr s) = (s \<noteq> [])"
| "truthy (JRef a) = True"

text \<open>
  A plain object is the list of its own properties in insertion order. Reading a
  property that is absent gives \<open>undefined\<close>; writing keeps the position of a property
  that exists and appends a new one.
\<close>

type_synonym obj = "(string \<times> jsval) list"

definition get_prop :: "obj \<Rightarrow> string \<Rightarrow> jsval" where
  "get_prop ob k = (case map_of ob k of None \<Rightarrow> JUndefined | Some v \<Rightarrow> v)"

definition set_prop :: "obj \<Rightarrow> string \<Rightarrow> jsval \<Rightarrow> obj" where
  "set_prop ob k v = AList.update k v ob"

text \<open>
  \<open>Object.assign(target, source, ...)\<close> for one source: every own property of the source
  is written to the target, in order. The two-source call of the module is two of these.
\<close>

definition Object_assign :: "obj \<Rightarrow> obj \<Rightarrow> obj" where
  "Object_assign target source = foldl (\<lambda>t (k, v). set_prop t k v) target source"

text \<open>
  An error object: \<open>err_id\<close> stands for the identity of the object (two errors with the
  same fields and different identities are different objects), \<open>err_type\<close> is the
  \<open>type\<close> property that node-fetch sets on its own errors and that other errors lack.
\<close>

record err =
  err_id :: nat
  err_type :: "string option"
  message :: string

type_synonym bytes = "char list"

text \<open>
  The response handle of the transport: status, headers, and a body stream. Reading the
  stream to its end (\<open>response.buffer()\<close>) takes \<open>drain_ns\<close> nanoseconds and gives the
  bytes or fails.
\<close>

record raw_response =
  status :: nat
  headers :: "(string \<times> string) list"
  drain_ns :: nat
  drain :: "err + bytes"

text \<open>One call of the transport: how long it takes, and what it gives.\<close>

record attempt =
  attempt_ns :: nat
  outcome :: "err + raw_response"

datatype json =
  JsNull | JsBool bool | JsNumber int | JsString string
  | JsArray "json list" | JsObject "(string \<times> json) list"

record constants =
  MaxRetries :: int
  TimeoutErrorString :: string
  WarnAfterSeconds :: int
  DefaultRequestOptions :: obj
  Labels_Target :: string
  Labels_Method :: string
  Labels_StatusCode :: string
  DefaultValues_Method :: jsval
  ExternalHttpRequestDurationSeconds :: string

text \<open>
  The world: \<open>node_fetch url options k\<close> is what the \<open>k\<close>-th call of the transport (counted
  from 0 over the life of the process) does when it is given \<open>url\<close> and \<open>options\<close>;
  \<open>URL_host url\<close> is \<open>new URL(url).host\<close>, which throws on a string that is not an
  absolute URL; \<open>JSON_parse\<close> gives the parsed value or the text of the SyntaxError
  (\<open>e.toString()\<close>); \<open>Buffer_toString\<close> decodes the bytes.
\<close>

record world =
  node_fetch :: "string \<Rightarrow> obj \<Rightarrow> nat \<Rightarrow> attempt"
  URL_host :: "string \<Rightarrow> err + string"
  JSON_parse :: "string \<Rightarrow> string + json"
  Buffer_toString :: "bytes \<Rightarrow> string"

datatype log_line = Warn string | Error string

fun is_warn :: "log_line \<Rightarrow> bool" where
  "is_warn (Warn m) = True"
| "is_warn (Error m) = False"

fun is_error :: "log_line \<Rightarrow> bool" where
  "is_error (Warn m) = False"
| "is_error (Error m) = True"

record observation =
  ob_metric :: string
  ob_labels :: obj
  ob_ns :: nat

text \<open>
  The state: the objects that exist (an object's address is its index), the module's
  variable \<open>metricsTracker\<close> (\<open>None\<close> is \<open>null\<close>; a tracker is the list of the observations
  its histogram holds), the monotonic clock in nanoseconds, the number of calls the
  transport has received, the number of times a body stream has been read, and the
  lines the logger has received.
\<close>

record state =
  heap :: "obj list"
  metricsTracker :: "observation list option"
  clock :: nat
  calls :: nat
  body_reads :: nat
  logs :: "log_line list"

definition obj_at :: "obj list \<Rightarrow> nat \<Rightarrow> obj" where
  "obj_at h a = (if a < length h then h ! a else [])"

text \<open>Template literals print an integer in decimal.\<close>

fun show_nat :: "nat \<Rightarrow> string" where
  "show_nat n =
     (if n < 10 then [''0123456789'' ! n]
      else show_nat (n div 10) @ [''0123456789'' ! (n mod 10)])"

text \<open>\<open>process.hrtime(startTime)[0]\<close>: the whole seconds since \<open>startTime\<close>.\<close>

definition hrtime_seconds :: "nat \<Rightarrow> state \<Rightarrow> nat" where
  "hrtime_seconds startTime st = (clock st - startTime) div 1000000000"

section \<open>The retrying transport\<close>

text \<open>
  \<open>await fetch(url, options)\<close> of line 11: the transport receives its next call, the clock
  advances by the time the call takes.
\<close>

definition issue :: "world \<Rightarrow> string \<Rightarrow> nat \<Rightarrow> state \<Rightarrow> (err + raw_response) \<times> state" where
  "issue W url options st =
     (let a = node_fetch W url (obj_at (heap st) options) (calls st)
      in (outcome a, st\<lparr>clock := clock st + attempt_ns a, calls := calls st + 1\<rparr>))"

text \<open>
  \<open>_fetch\<close> (lines 9 to 20). \<open>options\<close> is the address of the options object, \<open>retries\<close>
  the number of the attempt, 1 when the caller leaves it out.
\<close>

function private_fetch ::
  "constants \<Rightarrow> world \<Rightarrow> string \<Rightarrow> nat \<Rightarrow> int \<Rightarrow> state \<Rightarrow> (err + raw_response) \<times> state" where
  "private_fetch C W url options retries st =
     (case issue W url options st of
        (Inr result, st') \<Rightarrow> (Inr result, st')
      | (Inl e, st') \<Rightarrow>
          if retries < MaxRetries C \<and> err_type e \<noteq> Some (TimeoutErrorString C)
          then private_fetch C W url options (retries + 1) st'
          else (Inl e, st'))"
  by pat_completeness auto
termination
  by (relation "measure (\<lambda>(C, W, url, options, retries, st). nat (MaxRetries C - retries))") auto

declare private_fetch.simps [simp del]

section \<open>The metrics tracker\<close>

text \<open>
  Modelled from the spec: the histogram that the tracker of the package \<open>nodejs-metrics\<close>
  holds; the code of the package is not part of this module. An observation is one
  recorded duration under a set of labels (glossary of the specification); recording it
  appends it to the histogram of the registered tracker.
\<close>

definition observe :: "string \<Rightarrow> obj \<Rightarrow> nat \<Rightarrow> state \<Rightarrow> state" where
  "observe metricName labels ns st =
     st\<lparr>metricsTracker :=
          map_option (\<lambda>obs. obs @ [\<lparr>ob_metric = metricName, ob_labels = labels, ob_ns = ns\<rparr>])
            (metricsTracker st)\<rparr>"

text \<open>
  Modelled from the spec: \<open>MetricsTracker.trackHistogramDuration\<close> of the same package.
  Section 6 of the specification gives its contract: \<open>track(metricName, labels, action,
  onResult)\<close> runs the action, measures the elapsed time, lets \<open>onResult(result, labels)\<close>
  change the labels, records the elapsed time in the named histogram under the final
  labels, and gives the action's result. Section 4.2 counts one observation for a tracked
  call, so a failing action is observed too, under the labels as they are, and its error is
  passed on.
\<close>

definition trackHistogramDuration ::
  "string \<Rightarrow> obj \<Rightarrow> (state \<Rightarrow> (err + raw_response) \<times> state) \<Rightarrow> (raw_response \<Rightarrow> obj \<Rightarrow> obj)
     \<Rightarrow> state \<Rightarrow> (err + raw_response) \<times> state" where
  "trackHistogramDuration metricName labels action handleResult st =
     (case action st of
        (Inr result, st') \<Rightarrow>
          (Inr result, observe metricName (handleResult result labels) (clock st' - clock st) st')
      | (Inl e, st') \<Rightarrow>
          (Inl e, observe metricName labels (clock st' - clock st) st'))"

text \<open>
  \<open>collectDefaultMetrics\<close> (lines 84 to 96): the module's variable receives a new tracker
  whose histogram is empty. The client that builds the histogram, its name, help text,
  label names and buckets play no part in what follows.
\<close>

definition collectDefaultMetrics :: "state \<Rightarrow> state" where
  "collectDefaultMetrics st = st\<lparr>metricsTracker := Some []\<rparr>"

definition observations :: "state \<Rightarrow> observation list" where
  "observations st = (case metricsTracker st of None \<Rightarrow> [] | Some obs \<Rightarrow> obs)"

section \<open>The fetcher\<close>

text \<open>
  \<open>_setDefaultOptions\<close> (lines 77 to 80): \<open>Object.assign({}, defaults, options)\<close>. The
  target is a new object; \<open>options\<close> is the address of the caller's object, or \<open>None\<close>
  when the caller passes none (\<open>Object.assign\<close> skips an \<open>undefined\<close> source).
\<close>

definition Fetcher_setDefaultOptions :: "constants \<Rightarrow> nat option \<Rightarrow> state \<Rightarrow> nat \<times> state" where
  "Fetcher_setDefaultOptions C options st =
     (let source = (case options of None \<Rightarrow> [] | Some a \<Rightarrow> obj_at (heap st) a);
          mergedOptions = Object_assign (Object_assign [] (DefaultRequestOptions C)) source
      in (length (heap st), st\<lparr>heap := heap st @ [mergedOptions]\<rparr>))"

text \<open>
  The response that \<open>fetch\<close> returns is the transport's response object with its three
  accessors replaced by closures over \<open>url\<close>, the response itself and \<open>buffer\<close>.
\<close>

record response =
  raw :: raw_response
  closure_url :: string
  closure_buffer :: bytes

definition warn_message :: "string \<Rightarrow> nat \<Rightarrow> string" where
  "warn_message url secs =
     ''Request to '' @ url @ '' took '' @ show_nat secs @ '' seconds to execute.''"

definition error_message :: "string \<Rightarrow> err \<Rightarrow> nat \<Rightarrow> string" where
  "error_message url error secs =
     ''Failed request for '' @ url @ '' with '' @ [CHR 0x22] @ message error @ [CHR 0x22]
       @ '' after '' @ show_nat secs @ '' seconds''"

text \<open>Lines 34 to 48: the call of the retrying transport, inside a metrics span or not.\<close>

definition fetch_call ::
  "constants \<Rightarrow> world \<Rightarrow> string \<Rightarrow> nat \<Rightarrow> bool \<Rightarrow> state \<Rightarrow> (err + raw_response) \<times> state" where
  "fetch_call C W url mergedOptions shouldTrackRequest st =
     (if shouldTrackRequest then
        (case URL_host W url of
           Inl e \<Rightarrow> (Inl e, st)
         | Inr host \<Rightarrow>
             (let m = get_prop (obj_at (heap st) mergedOptions) ''method'';
                  currentRequestLabels =
                    set_prop (set_prop [] (Labels_Target C) (JStr host)) (Labels_Method C)
                      (if truthy m then m else DefaultValues_Method C)
              in trackHistogramDuration (ExternalHttpRequestDurationSeconds C)
                   currentRequestLabels
                   (private_fetch C W url mergedOptions 1)
                   (\<lambda>result labels.
                      set_prop labels (Labels_StatusCode C) (JNum (int (status result))))
                   st))
      else private_fetch C W url mergedOptions 1 st)"

text \<open>Lines 33 to 69: the body of the \<open>try\<close>.\<close>

definition fetch_try ::
  "constants \<Rightarrow> world \<Rightarrow> string \<Rightarrow> nat \<Rightarrow> bool \<Rightarrow> nat \<Rightarrow> state \<Rightarrow> (err + response) \<times> state" where
  "fetch_try C W url mergedOptions shouldTrackRequest startTime st =
     (case fetch_call C W url mergedOptions shouldTrackRequest st of
        (Inl e, st1) \<Rightarrow> (Inl e, st1)
      | (Inr resp, st1) \<Rightarrow>
          (let endTime = hrtime_seconds startTime st1;
               st2 = (if WarnAfterSeconds C \<le> int endTime
                      then st1\<lparr>logs := logs st1 @ [Warn (warn_message url endTime)]\<rparr>
                      else st1);
               st3 = st2\<lparr>clock := clock st2 + drain_ns resp, body_reads := body_reads st2 + 1\<rparr>
           in case drain resp of
                Inl e \<Rightarrow> (Inl e, st3)
              | Inr buffer \<Rightarrow>
                  (Inr \<lparr>raw = resp, closure_url = url, closure_buffer = buffer\<rparr>, st3)))"

text \<open>\<open>Fetcher.fetch\<close> (lines 27 to 75).\<close>

definition Fetcher_fetch ::
  "constants \<Rightarrow> world \<Rightarrow> string \<Rightarrow> nat option \<Rightarrow> state \<Rightarrow> (err + response) \<times> state" where
  "Fetcher_fetch C W url options st =
     (case Fetcher_setDefaultOptions C options st of
        (mergedOptions, st0) \<Rightarrow>
          (let shouldTrackRequest =
                 (\<not> truthy (get_prop (obj_at (heap st0) mergedOptions) ''skipTrackRequest'')
                  \<and> metricsTracker st0 \<noteq> None);
               startTime = clock st0
           in case fetch_try C W url mergedOptions shouldTrackRequest startTime st0 of
                (Inr resp, st1) \<Rightarrow> (Inr resp, st1)
              | (Inl error, st1) \<Rightarrow>
                  (Inl error,
                   st1\<lparr>logs := logs st1
                          @ [Error (error_message url error (hrtime_seconds startTime st1))]\<rparr>)))"

subsection \<open>The accessors of the returned response\<close>

text \<open>
  Lines 59 to 67. Each accessor is a closure over the buffer; none of them calls a
  collaborator, so the state they return is the state they receive. \<open>json\<close> throws a new
  \<open>Error\<close>, which is its message here.
\<close>

datatype accessor = A_text | A_json | A_buffer

datatype read_result = R_text string | R_json json | R_buffer bytes

definition json_error_message :: "string \<Rightarrow> nat \<Rightarrow> string \<Rightarrow> string \<Rightarrow> string" where
  "json_error_message url st body e =
     ''Error parsing response from '' @ url @ ''. Status: '' @ show_nat st @ ''. Body: ''
       @ body @ ''. '' @ e"

definition response_text :: "world \<Rightarrow> response \<Rightarrow> state \<Rightarrow> (string + string) \<times> state" where
  "response_text W r st = (Inr (Buffer_toString W (closure_buffer r)), st)"

definition response_json :: "world \<Rightarrow> response \<Rightarrow> state \<Rightarrow> (string + json) \<times> state" where
  "response_json W r st =
     (case JSON_parse W (Buffer_toString W (closure_buffer r)) of
        Inr v \<Rightarrow> (Inr v, st)
      | Inl e \<Rightarrow>
          (Inl (json_error_message (closure_url r) (status (raw r))
                  (Buffer_toString W (closure_buffer r)) e), st))"

definition response_buffer :: "response \<Rightarrow> state \<Rightarrow> (string + bytes) \<times> state" where
  "response_buffer r st = (Inr (closure_buffer r), st)"

definition call_accessor ::
  "world \<Rightarrow> response \<Rightarrow> accessor \<Rightarrow> state \<Rightarrow> (string + read_result) \<times> state" where
  "call_accessor W r a st =
     (case a of
        A_text \<Rightarrow> (case response_text W r st of (x, st') \<Rightarrow> (map_sum id R_text x, st'))
      | A_json \<Rightarrow> (case response_json W r st of (x, st') \<Rightarrow> (map_sum id R_json x, st'))
      | A_buffer \<Rightarrow> (case response_buffer r st of (x, st') \<Rightarrow> (map_sum id R_buffer x, st')))"

text \<open>A caller that invokes the accessors one after the other, whatever each one gives.\<close>

fun call_accessors ::
  "world \<Rightarrow> response \<Rightarrow> accessor list \<Rightarrow> state \<Rightarrow> (string + read_result) list \<times> state" where
  "call_accessors W r [] st = ([], st)"
| "call_accessors W r (a # as) st =
     (case call_accessor W r a st of
        (x, st') \<Rightarrow> (case call_accessors W r as st' of (xs, st'') \<Rightarrow> (x # xs, st'')))"

section \<open>Vocabulary of the statements\<close>

text \<open>The state after one call of the transport.\<close>

definition after_attempt :: "world \<Rightarrow> string \<Rightarrow> nat \<Rightarrow> state \<Rightarrow> state" where
  "after_attempt W url options st = snd (issue W url options st)"

text \<open>
  A transient failure is an attempt that throws an error that is not classified as a
  timeout: the test of line 14 on \<open>err.type\<close>.
\<close>

definition transient_failure :: "constants \<Rightarrow> attempt \<Rightarrow> bool" where
  "transient_failure C a =
     (case outcome a of Inl e \<Rightarrow> err_type e \<noteq> Some (TimeoutErrorString C) | Inr r \<Rightarrow> False)"

text \<open>
  The object that \<open>mergedOptions\<close> is bound to in line 28, and the value of
  \<open>shouldTrackRequest\<close> in line 29, for a call of \<open>fetch\<close> in state \<open>st\<close>.
\<close>

definition mergedOptions_of :: "constants \<Rightarrow> nat option \<Rightarrow> state \<Rightarrow> obj" where
  "mergedOptions_of C options st =
     (case Fetcher_setDefaultOptions C options st of (m, st0) \<Rightarrow> obj_at (heap st0) m)"

definition shouldTrackRequest_of :: "constants \<Rightarrow> nat option \<Rightarrow> state \<Rightarrow> bool" where
  "shouldTrackRequest_of C options st =
     (case Fetcher_setDefaultOptions C options st of
        (m, st0) \<Rightarrow>
          \<not> truthy (get_prop (obj_at (heap st0) m) ''skipTrackRequest'')
          \<and> metricsTracker st0 \<noteq> None)"

text \<open>The state in which the \<open>try\<close> block starts.\<close>

definition after_merge :: "constants \<Rightarrow> nat option \<Rightarrow> state \<Rightarrow> state" where
  "after_merge C options st = snd (Fetcher_setDefaultOptions C options st)"

text \<open>
  The two points inside \<open>Fetcher.fetch\<close> that the statements below speak about: the
  result of lines 34 to 48 (the call of the retrying transport, tracked or not), and the
  result of the whole \<open>try\<close> block.
\<close>

definition call_stage ::
  "constants \<Rightarrow> world \<Rightarrow> string \<Rightarrow> nat option \<Rightarrow> state \<Rightarrow> (err + raw_response) \<times> state" where
  "call_stage C W url options st =
     (case Fetcher_setDefaultOptions C options st of
        (m, st0) \<Rightarrow> fetch_call C W url m (shouldTrackRequest_of C options st) st0)"

definition try_stage ::
  "constants \<Rightarrow> world \<Rightarrow> string \<Rightarrow> nat option \<Rightarrow> state \<Rightarrow> (err + response) \<times> state" where
  "try_stage C W url options st =
     (case Fetcher_setDefaultOptions C options st of
        (m, st0) \<Rightarrow> fetch_try C W url m (shouldTrackRequest_of C options st) (clock st) st0)"

section \<open>Sample constants and worlds\<close>

text \<open>
  The values of \<open>./constants\<close> are not part of the module; the samples below fix some, and
  a few worlds, for the concrete runs that accompany the theorems. In a sample world the
  transport follows a script of attempts for the one URL it knows and rejects every other
  string, \<open>new URL\<close> accepts that same URL only, and \<open>JSON.parse\<close> is given on the two bodies
  the runs use: \<open>{"id":1}\<close>, which it parses, and \<open>oops\<close>, which it rejects.
\<close>

text \<open>Sample values for the constants: three attempts at most, a warning from five seconds on.\<close>

definition sample_constants :: constants where
  "sample_constants =
     \<lparr>MaxRetries = 3, TimeoutErrorString = ''request-timeout'', WarnAfterSeconds = 5,
      DefaultRequestOptions = [(''method'', JStr ''GET'')],
      Labels_Target = ''target'', Labels_Method = ''method'', Labels_StatusCode = ''statusCode'',
      DefaultValues_Method = JStr ''GET'',
      ExternalHttpRequestDurationSeconds = ''external_http_request_duration_seconds''\<rparr>"

text \<open>
  Errors as the collaborators throw them; the argument of the first two is the number of
  the call of the transport that threw, so that the errors of different calls differ.
\<close>

definition connection_reset :: "nat \<Rightarrow> err" where
  "connection_reset k = \<lparr>err_id = k, err_type = Some ''system'', message = ''socket hang up''\<rparr>"

definition request_timeout :: "nat \<Rightarrow> err" where
  "request_timeout k =
     \<lparr>err_id = k, err_type = Some ''request-timeout'', message = ''network timeout''\<rparr>"

definition invalid_url :: err where
  "invalid_url = \<lparr>err_id = 1000, err_type = None, message = ''Invalid URL''\<rparr>"

definition only_absolute_urls :: "nat \<Rightarrow> err" where
  "only_absolute_urls k =
     \<lparr>err_id = 2000 + k, err_type = None, message = ''Only absolute URLs are supported''\<rparr>"

text \<open>A response with a status and a body that can be read, and the body of the scenario.\<close>

definition response_with :: "nat \<Rightarrow> bytes \<Rightarrow> raw_response" where
  "response_with code body = \<lparr>status = code, headers = [], drain_ns = 1000000, drain = Inr body\<rparr>"

definition id_1_body :: bytes where
  "id_1_body = ''{'' @ [CHR 0x22] @ ''id'' @ [CHR 0x22] @ '':1}''"

definition items_url :: string where
  "items_url = ''https://api.example.com/items''"

text \<open>The sample world over a script of attempts.\<close>

definition sample_world :: "(nat \<Rightarrow> attempt) \<Rightarrow> world" where
  "sample_world script =
     \<lparr>node_fetch = (\<lambda>url options k.
                      if url = items_url then script k
                      else \<lparr>attempt_ns = 0, outcome = Inl (only_absolute_urls k)\<rparr>),
      URL_host = (\<lambda>url. if url = items_url then Inr ''api.example.com'' else Inl invalid_url),
      JSON_parse = (\<lambda>s. if s = id_1_body then Inr (JsObject [(''id'', JsNumber 1)])
                          else Inl ''SyntaxError: Unexpected token o in JSON at position 0''),
      Buffer_toString = (\<lambda>b. b)\<rparr>"

text \<open>The scripts: what the \<open>k\<close>-th call of the transport does.\<close>

definition reset_twice_then_ok :: "nat \<Rightarrow> attempt" where
  "reset_twice_then_ok k =
     (if k < 2 then \<lparr>attempt_ns = 2000000, outcome = Inl (connection_reset k)\<rparr>
      else \<lparr>attempt_ns = 3000000, outcome = Inr (response_with 200 id_1_body)\<rparr>)"

definition always_reset :: "nat \<Rightarrow> attempt" where
  "always_reset k = \<lparr>attempt_ns = 2000000, outcome = Inl (connection_reset k)\<rparr>"

definition slow_timeout :: "nat \<Rightarrow> attempt" where
  "slow_timeout k = \<lparr>attempt_ns = 10000000000, outcome = Inl (request_timeout k)\<rparr>"

definition ok_not_json :: "nat \<Rightarrow> attempt" where
  "ok_not_json k = \<lparr>attempt_ns = 3000000, outcome = Inr (response_with 200 ''oops'')\<rparr>"

definition slow_ok :: "nat \<Rightarrow> attempt" where
  "slow_ok k = \<lparr>attempt_ns = 6000000000, outcome = Inr (response_with 200 id_1_body)\<rparr>"

definition unavailable :: "nat \<Rightarrow> attempt" where
  "unavailable k =
     \<lparr>attempt_ns = 3000000, outcome = Inr (response_with 503 ''Service Unavailable'')\<rparr>"

definition body_stream_error :: err where
  "body_stream_error =
     \<lparr>err_id = 3000, err_type = Some ''system'',
      message = ''Invalid response body while trying to fetch https://api.example.com/items: aborted''\<rparr>"

definition broken_body_response :: raw_response where
  "broken_body_response =
     \<lparr>status = 200, headers = [], drain_ns = 1000000, drain = Inl body_stream_error\<rparr>"

definition reset_twice_then_broken_body :: "nat \<Rightarrow> attempt" where
  "reset_twice_then_broken_body k =
     (if k < 2 then \<lparr>attempt_ns = 2000000, outcome = Inl (connection_reset k)\<rparr>
      else \<lparr>attempt_ns = 3000000, outcome = Inr broken_body_response\<rparr>)"

text \<open>
  The state before a call: the caller holds two objects, \<open>{method: 'GET'}\<close> at address 0
  and \<open>{skipTrackRequest: true}\<close> at address 1; no tracker is registered.
\<close>

definition initial_state :: state where
  "initial_state =
     \<lparr>heap = [[(''method'', JStr ''GET'')], [(''skipTrackRequest'', JBool True)]],
      metricsTracker = None, clock = 0, calls = 0, body_reads = 0, logs = []\<rparr>"

text \<open>The responses and the states that two of the runs end with.\<close>

definition id_1_response :: response where
  "id_1_response =
     \<lparr>raw = response_with 200 id_1_body, closure_url = items_url, closure_buffer = id_1_body\<rparr>"

definition oops_response :: response where
  "oops_response =
     \<lparr>raw = response_with 200 ''oops'', closure_url = items_url, closure_buffer = ''oops''\<rparr>"

definition state_after :: "nat \<Rightarrow> nat \<Rightarrow> state" where
  "state_after ns n =
     \<lparr>heap = [[(''method'', JStr ''GET'')], [(''skipTrackRequest'', JBool True)],
              [(''method'', JStr ''GET'')]],
      metricsTracker = None, clock = ns, calls = n, body_reads = 1, logs = []\<rparr>"

section \<open>Lemmas about the model\<close>

subsection \<open>The retrying transport\<close>

lemma after_attempt_simps:
  "heap (after_attempt W url options st) = heap st"
  "calls (after_attempt W url options st) = calls st + 1"
  "clock (after_attempt W url options st)
     = clock st + attempt_ns (node_fetch W url (obj_at (heap st) options) (calls st))"
  "logs (after_attempt W url options st) = logs st"
  "metricsTracker (after_attempt W url options st) = metricsTracker st"
  "body_reads (after_attempt W url options st) = body_reads st"
  by (simp_all add: after_attempt_def issue_def Let_def)

lemma issue_eq:
  "issue W url options st
     = (outcome (node_fetch W url (obj_at (heap st) options) (calls st)),
        after_attempt W url options st)"
  by (simp add: after_attempt_def issue_def Let_def)

lemma private_fetch_Inr:
  assumes "outcome (node_fetch W url (obj_at (heap st) options) (calls st)) = Inr r"
  shows "private_fetch C W url options retries st = (Inr r, after_attempt W url options st)"
  by (subst private_fetch.simps) (simp add: issue_eq assms)

lemma private_fetch_stop:
  assumes "outcome (node_fetch W url (obj_at (heap st) options) (calls st)) = Inl e"
    and "\<not> (retries < MaxRetries C \<and> err_type e \<noteq> Some (TimeoutErrorString C))"
  shows "private_fetch C W url options retries st = (Inl e, after_attempt W url options st)"
  by (subst private_fetch.simps) (simp add: issue_eq assms)

lemma private_fetch_retry:
  assumes "outcome (node_fetch W url (obj_at (heap st) options) (calls st)) = Inl e"
    and "retries < MaxRetries C" and "err_type e \<noteq> Some (TimeoutErrorString C)"
  shows "private_fetch C W url options retries st
           = private_fetch C W url options (retries + 1) (after_attempt W url options st)"
  by (subst private_fetch.simps) (simp add: issue_eq assms)

lemma private_fetch_frame:
  "heap (snd (private_fetch C W url options retries st)) = heap st
   \<and> logs (snd (private_fetch C W url options retries st)) = logs st
   \<and> metricsTracker (snd (private_fetch C W url options retries st)) = metricsTracker st
   \<and> body_reads (snd (private_fetch C W url options retries st)) = body_reads st
   \<and> clock st \<le> clock (snd (private_fetch C W url options retries st))
   \<and> calls st < calls (snd (private_fetch C W url options retries st))"
proof (induction C W url options retries st rule: private_fetch.induct)
  case (1 C W url options retries st)
  show ?case
  proof (cases "outcome (node_fetch W url (obj_at (heap st) options) (calls st))")
    case (Inr r)
    then show ?thesis by (simp add: private_fetch_Inr after_attempt_simps)
  next
    case (Inl e)
    show ?thesis
    proof (cases "retries < MaxRetries C \<and> err_type e \<noteq> Some (TimeoutErrorString C)")
      case False
      with Inl show ?thesis by (simp add: private_fetch_stop after_attempt_simps)
    next
      case True
      have eq: "private_fetch C W url options retries st
           = private_fetch C W url options (retries + 1) (after_attempt W url options st)"
        using Inl True by (simp add: private_fetch_retry)
      have ih: "heap (snd (private_fetch C W url options (retries + 1) (after_attempt W url options st))) = heap (after_attempt W url options st)
   \<and> logs (snd (private_fetch C W url options (retries + 1) (after_attempt W url options st))) = logs (after_attempt W url options st)
   \<and> metricsTracker (snd (private_fetch C W url options (retries + 1) (after_attempt W url options st))) = metricsTracker (after_attempt W url options st)
   \<and> body_reads (snd (private_fetch C W url options (retries + 1) (after_attempt W url options st))) = body_reads (after_attempt W url options st)
   \<and> clock (after_attempt W url options st) \<le> clock (snd (private_fetch C W url options (retries + 1) (after_attempt W url options st)))
   \<and> calls (after_attempt W url options st) < calls (snd (private_fetch C W url options (retries + 1) (after_attempt W url options st)))"
        using "1.IH"[of "Inl e" "after_attempt W url options st" e] Inl True
        by (simp add: issue_eq)
      show ?thesis unfolding eq using ih by (simp add: after_attempt_simps)
    qed
  qed
qed

lemma transient_failureD:
  "transient_failure C a \<Longrightarrow> \<exists>e. outcome a = Inl e \<and> err_type e \<noteq> Some (TimeoutErrorString C)"
  by (cases "outcome a") (simp_all add: transient_failure_def)

lemma private_fetch_skip:
  assumes "\<forall>k. calls st \<le> k \<and> k < calls st + j
             \<longrightarrow> transient_failure C (node_fetch W url (obj_at (heap st) options) k)"
    and "retries + int j \<le> MaxRetries C"
  shows "\<exists>st'. private_fetch C W url options retries st
                 = private_fetch C W url options (retries + int j) st'
             \<and> calls st' = calls st + j \<and> heap st' = heap st"
  using assms
proof (induction j arbitrary: retries st)
  case 0
  then show ?case by auto
next
  case (Suc j)
  let ?st1 = "after_attempt W url options st"
  from Suc.prems(1) have "transient_failure C (node_fetch W url (obj_at (heap st) options) (calls st))"
    by simp
  then obtain e where e: "outcome (node_fetch W url (obj_at (heap st) options) (calls st)) = Inl e"
    "err_type e \<noteq> Some (TimeoutErrorString C)"
    using transient_failureD by blast
  from Suc.prems(2) have lt: "retries < MaxRetries C" by simp
  have step: "private_fetch C W url options retries st
                = private_fetch C W url options (retries + 1) ?st1"
    by (rule private_fetch_retry[OF e(1) lt e(2)])
  have h1: "\<forall>k. calls ?st1 \<le> k \<and> k < calls ?st1 + j
             \<longrightarrow> transient_failure C (node_fetch W url (obj_at (heap ?st1) options) k)"
    using Suc.prems(1) by (simp add: after_attempt_simps)
  have h2: "(retries + 1) + int j \<le> MaxRetries C" using Suc.prems(2) by simp
  from Suc.IH[OF h1 h2] obtain st' where
    st': "private_fetch C W url options (retries + 1) ?st1
            = private_fetch C W url options (retries + 1 + int j) st'"
      "calls st' = calls ?st1 + j" "heap st' = heap ?st1"
    by blast
  have "retries + 1 + int j = retries + int (Suc j)" by simp
  with step st' show ?case
    by (metis add_Suc_shift after_attempt_simps(1) after_attempt_simps(2) Suc_eq_plus1 add.commute)
qed

lemma private_fetch_exhausts:
  assumes "1 \<le> MaxRetries C"
    and "\<forall>k. calls st \<le> k \<and> k < calls st + nat (MaxRetries C)
             \<longrightarrow> transient_failure C (node_fetch W url (obj_at (heap st) options) k)"
  shows "\<exists>e st'. private_fetch C W url options 1 st = (Inl e, st')
            \<and> calls st' = calls st + nat (MaxRetries C)
            \<and> outcome (node_fetch W url (obj_at (heap st) options)
                         (calls st + nat (MaxRetries C) - 1)) = Inl e"
proof -
  let ?j = "nat (MaxRetries C - 1)"
  have j: "1 + int ?j = MaxRetries C" "Suc ?j = nat (MaxRetries C)" using assms(1) by auto
  have "\<forall>k. calls st \<le> k \<and> k < calls st + ?j
             \<longrightarrow> transient_failure C (node_fetch W url (obj_at (heap st) options) k)"
    using assms(2) j(2) by auto
  from private_fetch_skip[OF this, of 1] j(1) obtain st1 where
    st1: "private_fetch C W url options 1 st = private_fetch C W url options (MaxRetries C) st1"
      "calls st1 = calls st + ?j" "heap st1 = heap st"
    by auto
  have "transient_failure C (node_fetch W url (obj_at (heap st) options) (calls st1))"
    using assms(2) st1(2) j(2) by auto
  then obtain e where e: "outcome (node_fetch W url (obj_at (heap st1) options) (calls st1)) = Inl e"
    using transient_failureD st1(3) by metis
  have "private_fetch C W url options (MaxRetries C) st1 = (Inl e, after_attempt W url options st1)"
    using e by (intro private_fetch_stop) auto
  moreover have "calls (after_attempt W url options st1) = calls st + nat (MaxRetries C)"
    using st1(2) j(2) by (simp add: after_attempt_simps)
  moreover have "calls st + nat (MaxRetries C) - 1 = calls st1" using st1(2) j(2) by simp
  ultimately show ?thesis using st1 e by auto
qed

lemma private_fetch_last_attempt_succeeds:
  assumes "1 \<le> MaxRetries C"
    and "\<forall>k. calls st \<le> k \<and> k < calls st + nat (MaxRetries C) - 1
             \<longrightarrow> transient_failure C (node_fetch W url (obj_at (heap st) options) k)"
    and "outcome (node_fetch W url (obj_at (heap st) options) (calls st + nat (MaxRetries C) - 1))
           = Inr r"
  shows "\<exists>st'. private_fetch C W url options 1 st = (Inr r, st')
            \<and> calls st' = calls st + nat (MaxRetries C)"
proof -
  let ?j = "nat (MaxRetries C - 1)"
  have j: "1 + int ?j = MaxRetries C" "Suc ?j = nat (MaxRetries C)" using assms(1) by auto
  have "\<forall>k. calls st \<le> k \<and> k < calls st + ?j
             \<longrightarrow> transient_failure C (node_fetch W url (obj_at (heap st) options) k)"
    using assms(2) j(2) by auto
  from private_fetch_skip[OF this, of 1] j(1) obtain st1 where
    st1: "private_fetch C W url options 1 st = private_fetch C W url options (MaxRetries C) st1"
      "calls st1 = calls st + ?j" "heap st1 = heap st"
    by auto
  have c: "calls st + nat (MaxRetries C) - 1 = calls st1" using st1(2) j(2) by simp
  have "outcome (node_fetch W url (obj_at (heap st1) options) (calls st1)) = Inr r"
    using assms(3) c st1(3) by simp
  then have "private_fetch C W url options (MaxRetries C) st1 = (Inr r, after_attempt W url options st1)"
    by (rule private_fetch_Inr)
  moreover have "calls (after_attempt W url options st1) = calls st + nat (MaxRetries C)"
    using st1(2) j(2) by (simp add: after_attempt_simps)
  ultimately show ?thesis using st1 by auto
qed

lemma private_fetch_timeout:
  assumes "outcome (node_fetch W url (obj_at (heap st) options) (calls st)) = Inl e"
    and "err_type e = Some (TimeoutErrorString C)"
  shows "private_fetch C W url options retries st = (Inl e, after_attempt W url options st)"
  using assms by (intro private_fetch_stop) auto

lemma private_fetch_retry_only_after_throw:
  "\<forall>k. calls st \<le> k \<and> Suc k < calls (snd (private_fetch C W url options retries st))
        \<longrightarrow> isl (outcome (node_fetch W url (obj_at (heap st) options) k))"
proof (induction C W url options retries st rule: private_fetch.induct)
  case (1 C W url options retries st)
  show ?case
  proof (cases "outcome (node_fetch W url (obj_at (heap st) options) (calls st))")
    case (Inr r)
    then show ?thesis by (auto simp: private_fetch_Inr after_attempt_simps)
  next
    case (Inl e)
    show ?thesis
    proof (cases "retries < MaxRetries C \<and> err_type e \<noteq> Some (TimeoutErrorString C)")
      case False
      with Inl show ?thesis by (auto simp: private_fetch_stop after_attempt_simps)
    next
      case True
      let ?st1 = "after_attempt W url options st"
      have eq: "private_fetch C W url options retries st
           = private_fetch C W url options (retries + 1) ?st1"
        using Inl True by (simp add: private_fetch_retry)
      have ih: "\<forall>k. calls ?st1 \<le> k \<and> Suc k < calls (snd (private_fetch C W url options (retries + 1) ?st1))
        \<longrightarrow> isl (outcome (node_fetch W url (obj_at (heap ?st1) options) k))"
        using "1.IH"[of "Inl e" ?st1 e] Inl True by (simp add: issue_eq)
      show ?thesis
      proof (intro allI impI)
        fix k assume k: "calls st \<le> k \<and> Suc k < calls (snd (private_fetch C W url options retries st))"
        show "isl (outcome (node_fetch W url (obj_at (heap st) options) k))"
        proof (cases "k = calls st")
          case True
          then show ?thesis using Inl by simp
        next
          case False
          with k have "calls ?st1 \<le> k" by (simp add: after_attempt_simps)
          with k ih show ?thesis unfolding eq by (simp add: after_attempt_simps)
        qed
      qed
    qed
  qed
qed

subsection \<open>Merging the options\<close>

lemma obj_at_snoc: "obj_at (h @ [x]) (length h) = x"
  by (simp add: obj_at_def)

lemma Fetcher_setDefaultOptions_eq:
  "Fetcher_setDefaultOptions C options st
     = (length (heap st), st\<lparr>heap := heap st @ [mergedOptions_of C options st]\<rparr>)"
  by (simp add: Fetcher_setDefaultOptions_def mergedOptions_of_def Let_def obj_at_def)

lemma shouldTrackRequest_of_eq:
  "shouldTrackRequest_of C options st
     = (\<not> truthy (get_prop (mergedOptions_of C options st) ''skipTrackRequest'')
        \<and> metricsTracker st \<noteq> None)"
  by (simp add: shouldTrackRequest_of_def mergedOptions_of_def Fetcher_setDefaultOptions_def Let_def)

lemma after_merge_simps:
  "heap (after_merge C options st) = heap st @ [mergedOptions_of C options st]"
  "obj_at (heap (after_merge C options st)) (length (heap st)) = mergedOptions_of C options st"
  "calls (after_merge C options st) = calls st"
  "clock (after_merge C options st) = clock st"
  "logs (after_merge C options st) = logs st"
  "metricsTracker (after_merge C options st) = metricsTracker st"
  "body_reads (after_merge C options st) = body_reads st"
  by (simp_all add: after_merge_def Fetcher_setDefaultOptions_eq obj_at_def)

lemma Fetcher_fetch_unfold:
  "Fetcher_fetch C W url options st =
     (case fetch_try C W url (length (heap st)) (shouldTrackRequest_of C options st) (clock st)
             (after_merge C options st) of
        (Inr resp, st1) \<Rightarrow> (Inr resp, st1)
      | (Inl error, st1) \<Rightarrow>
          (Inl error,
           st1\<lparr>logs := logs st1 @ [Error (error_message url error (hrtime_seconds (clock st) st1))]\<rparr>))"
  by (simp add: Fetcher_fetch_def Fetcher_setDefaultOptions_eq after_merge_def
      shouldTrackRequest_of_eq Let_def obj_at_def split: prod.splits sum.splits)

lemma fetch_call_reaches:
  assumes "track \<longrightarrow> (\<exists>h. URL_host W url = Inr h)"
  shows "fst (fetch_call C W url m track st) = fst (private_fetch C W url m 1 st)
       \<and> (\<exists>t. snd (fetch_call C W url m track st)
                = (snd (private_fetch C W url m 1 st))\<lparr>metricsTracker := t\<rparr>)"
proof (cases track)
  case False
  have "\<exists>t. snd (private_fetch C W url m 1 st)
        = (snd (private_fetch C W url m 1 st))\<lparr>metricsTracker := t\<rparr>"
    by (rule exI[of _ "metricsTracker (snd (private_fetch C W url m 1 st))"]) simp
  with False show ?thesis by (simp add: fetch_call_def)
next
  case True
  with assms obtain h where h: "URL_host W url = Inr h" by blast
  obtain x s where xs: "private_fetch C W url m 1 st = (x, s)" by (cases "private_fetch C W url m 1 st")
  show ?thesis using True h xs
    by (cases x) (auto simp: fetch_call_def trackHistogramDuration_def observe_def Let_def)
qed

subsection \<open>The call of the transport inside the fetcher\<close>

lemma call_stage_eq:
  "call_stage C W url options st
     = fetch_call C W url (length (heap st)) (shouldTrackRequest_of C options st)
         (after_merge C options st)"
  by (simp add: call_stage_def Fetcher_setDefaultOptions_eq after_merge_def)

lemma try_stage_eq:
  "try_stage C W url options st =
     (case call_stage C W url options st of
        (Inl e, st1) \<Rightarrow> (Inl e, st1)
      | (Inr resp, st1) \<Rightarrow>
          (let endTime = hrtime_seconds (clock st) st1;
               st2 = (if WarnAfterSeconds C \<le> int endTime
                      then st1\<lparr>logs := logs st1 @ [Warn (warn_message url endTime)]\<rparr>
                      else st1);
               st3 = st2\<lparr>clock := clock st2 + drain_ns resp, body_reads := body_reads st2 + 1\<rparr>
           in case drain resp of
                Inl e \<Rightarrow> (Inl e, st3)
              | Inr buffer \<Rightarrow>
                  (Inr \<lparr>raw = resp, closure_url = url, closure_buffer = buffer\<rparr>, st3)))"
  by (simp add: try_stage_def call_stage_def fetch_try_def Fetcher_setDefaultOptions_eq)

lemma Fetcher_fetch_eq:
  "Fetcher_fetch C W url options st =
     (case try_stage C W url options st of
        (Inr resp, st1) \<Rightarrow> (Inr resp, st1)
      | (Inl error, st1) \<Rightarrow>
          (Inl error,
           st1\<lparr>logs := logs st1 @ [Error (error_message url error (hrtime_seconds (clock st) st1))]\<rparr>))"
  by (simp add: Fetcher_fetch_unfold try_stage_def Fetcher_setDefaultOptions_eq after_merge_def)

lemma call_stage_frame:
  "heap (snd (call_stage C W url options st)) = heap st @ [mergedOptions_of C options st]"
  "logs (snd (call_stage C W url options st)) = logs st"
  "body_reads (snd (call_stage C W url options st)) = body_reads st"
  "clock st \<le> clock (snd (call_stage C W url options st))"
  "calls st \<le> calls (snd (call_stage C W url options st))"
proof -
  let ?st0 = "after_merge C options st"
  let ?m = "length (heap st)"
  obtain x s where xs: "private_fetch C W url ?m 1 ?st0 = (x, s)"
    by (cases "private_fetch C W url ?m 1 ?st0")
  have fr: "heap s = heap ?st0" "logs s = logs ?st0" "body_reads s = body_reads ?st0"
    "clock ?st0 \<le> clock s" "calls ?st0 < calls s"
    using private_fetch_frame[of C W url ?m 1 ?st0] xs by simp_all
  have "heap (snd (call_stage C W url options st)) = heap st @ [mergedOptions_of C options st]
      \<and> logs (snd (call_stage C W url options st)) = logs st
      \<and> body_reads (snd (call_stage C W url options st)) = body_reads st
      \<and> clock st \<le> clock (snd (call_stage C W url options st))
      \<and> calls st \<le> calls (snd (call_stage C W url options st))"
    using xs fr
    by (cases x)
      (auto simp: call_stage_eq fetch_call_def trackHistogramDuration_def observe_def Let_def
        after_merge_simps split: sum.splits)
  then show
    "heap (snd (call_stage C W url options st)) = heap st @ [mergedOptions_of C options st]"
    "logs (snd (call_stage C W url options st)) = logs st"
    "body_reads (snd (call_stage C W url options st)) = body_reads st"
    "clock st \<le> clock (snd (call_stage C W url options st))"
    "calls st \<le> calls (snd (call_stage C W url options st))"
    by simp_all
qed

lemma call_stage_reaches:
  assumes "shouldTrackRequest_of C options st \<longrightarrow> (\<exists>h. URL_host W url = Inr h)"
  shows "fst (call_stage C W url options st)
           = fst (private_fetch C W url (length (heap st)) 1 (after_merge C options st))"
    and "calls (snd (call_stage C W url options st))
           = calls (snd (private_fetch C W url (length (heap st)) 1 (after_merge C options st)))"
    and "clock (snd (call_stage C W url options st))
           = clock (snd (private_fetch C W url (length (heap st)) 1 (after_merge C options st)))"
proof -
  from fetch_call_reaches[OF assms, of C "length (heap st)" "after_merge C options st"]
  obtain t where
    a: "fst (call_stage C W url options st)
           = fst (private_fetch C W url (length (heap st)) 1 (after_merge C options st))"
    and b: "snd (call_stage C W url options st)
           = (snd (private_fetch C W url (length (heap st)) 1 (after_merge C options st)))
               \<lparr>metricsTracker := t\<rparr>"
    by (auto simp: call_stage_eq)
  show "fst (call_stage C W url options st)
           = fst (private_fetch C W url (length (heap st)) 1 (after_merge C options st))"
    by (rule a)
  show "calls (snd (call_stage C W url options st))
           = calls (snd (private_fetch C W url (length (heap st)) 1 (after_merge C options st)))"
    by (simp add: b)
  show "clock (snd (call_stage C W url options st))
           = clock (snd (private_fetch C W url (length (heap st)) 1 (after_merge C options st)))"
    by (simp add: b)
qed

lemma call_stage_url_rejected:
  assumes "shouldTrackRequest_of C options st" and "URL_host W url = Inl e"
  shows "call_stage C W url options st = (Inl e, after_merge C options st)"
  using assms by (simp add: call_stage_eq fetch_call_def)

lemma call_stage_observations:
  "observations (snd (call_stage C W url options st))
     = observations st @
       (if shouldTrackRequest_of C options st \<and> (\<exists>h. URL_host W url = Inr h)
        then [\<lparr>ob_metric = ExternalHttpRequestDurationSeconds C,
               ob_labels = ob_labels (last (observations (snd (call_stage C W url options st)))),
               ob_ns = clock (snd (call_stage C W url options st)) - clock st\<rparr>]
        else [])"
proof -
  let ?st0 = "after_merge C options st"
  let ?m = "length (heap st)"
  obtain x s where xs: "private_fetch C W url ?m 1 ?st0 = (x, s)"
    by (cases "private_fetch C W url ?m 1 ?st0")
  have fr: "metricsTracker s = metricsTracker st"
    using private_fetch_frame[of C W url ?m 1 ?st0] xs by (simp add: after_merge_simps)
  show ?thesis
  proof (cases "shouldTrackRequest_of C options st")
    case False
    then show ?thesis using xs fr by (simp add: call_stage_eq fetch_call_def observations_def)
  next
    case True
    then obtain obs where obs: "metricsTracker st = Some obs"
      by (auto simp: shouldTrackRequest_of_eq)
    show ?thesis
    proof (cases "URL_host W url")
      case (Inl e)
      then show ?thesis using True
        by (simp add: call_stage_url_rejected observations_def after_merge_simps)
    next
      case (Inr h)
      then show ?thesis using True xs fr obs
        by (cases x)
          (simp_all add: call_stage_eq fetch_call_def trackHistogramDuration_def observe_def
            Let_def observations_def after_merge_simps)
    qed
  qed
qed

subsection \<open>The try block and the catch block\<close>

lemma private_fetch_last:
  "fst (private_fetch C W url m retries st)
     = outcome (node_fetch W url (obj_at (heap st) m)
                  (calls (snd (private_fetch C W url m retries st)) - 1))"
proof (induction C W url m retries st rule: private_fetch.induct)
  case (1 C W url options retries st)
  show ?case
  proof (cases "outcome (node_fetch W url (obj_at (heap st) options) (calls st))")
    case (Inr r)
    then show ?thesis by (simp add: private_fetch_Inr after_attempt_simps)
  next
    case (Inl e)
    show ?thesis
    proof (cases "retries < MaxRetries C \<and> err_type e \<noteq> Some (TimeoutErrorString C)")
      case False
      with Inl show ?thesis by (simp add: private_fetch_stop after_attempt_simps)
    next
      case True
      let ?st1 = "after_attempt W url options st"
      have eq: "private_fetch C W url options retries st
           = private_fetch C W url options (retries + 1) ?st1"
        using Inl True by (simp add: private_fetch_retry)
      have ih: "fst (private_fetch C W url options (retries + 1) ?st1)
        = outcome (node_fetch W url (obj_at (heap ?st1) options)
                  (calls (snd (private_fetch C W url options (retries + 1) ?st1)) - 1))"
        using "1.IH"[of "Inl e" ?st1 e] Inl True by (simp add: issue_eq)
      show ?thesis unfolding eq using ih by (simp add: after_attempt_simps)
    qed
  qed
qed

lemma try_stage_fst:
  "fst (try_stage C W url options st)
     = (case fst (call_stage C W url options st) of
          Inl e \<Rightarrow> Inl e
        | Inr r \<Rightarrow>
            (case drain r of
               Inl e \<Rightarrow> Inl e
             | Inr b \<Rightarrow> Inr \<lparr>raw = r, closure_url = url, closure_buffer = b\<rparr>))"
  by (simp add: try_stage_eq Let_def split: prod.splits sum.splits)

lemma try_stage_logs:
  "logs (snd (try_stage C W url options st))
     = logs st @
       (case fst (call_stage C W url options st) of
          Inl e \<Rightarrow> []
        | Inr r \<Rightarrow>
            if WarnAfterSeconds C
                 \<le> int (hrtime_seconds (clock st) (snd (call_stage C W url options st)))
            then [Warn (warn_message url
                          (hrtime_seconds (clock st) (snd (call_stage C W url options st))))]
            else [])"
  using call_stage_frame(2)[of C W url options st]
  by (auto simp: try_stage_eq Let_def split: prod.splits sum.splits)

lemma try_stage_frame:
  "heap (snd (try_stage C W url options st)) = heap (snd (call_stage C W url options st))"
  "calls (snd (try_stage C W url options st)) = calls (snd (call_stage C W url options st))"
  "metricsTracker (snd (try_stage C W url options st))
     = metricsTracker (snd (call_stage C W url options st))"
  "body_reads (snd (try_stage C W url options st))
     = body_reads st + (if isl (fst (call_stage C W url options st)) then 0 else 1)"
  "clock (snd (try_stage C W url options st))
     = clock (snd (call_stage C W url options st))
       + (case fst (call_stage C W url options st) of Inl e \<Rightarrow> 0 | Inr r \<Rightarrow> drain_ns r)"
  using call_stage_frame(3)[of C W url options st]
  by (auto simp: try_stage_eq Let_def split: prod.splits sum.splits)

lemma Fetcher_fetch_fst:
  "fst (Fetcher_fetch C W url options st) = fst (try_stage C W url options st)"
  by (simp add: Fetcher_fetch_eq split: prod.splits sum.splits)

lemma Fetcher_fetch_logs:
  "logs (snd (Fetcher_fetch C W url options st))
     = logs (snd (try_stage C W url options st)) @
       (case fst (try_stage C W url options st) of
          Inl e \<Rightarrow>
            [Error (error_message url e
                      (hrtime_seconds (clock st) (snd (try_stage C W url options st))))]
        | Inr r \<Rightarrow> [])"
  by (simp add: Fetcher_fetch_eq split: prod.splits sum.splits)

lemma Fetcher_fetch_frame:
  "heap (snd (Fetcher_fetch C W url options st)) = heap (snd (try_stage C W url options st))"
  "calls (snd (Fetcher_fetch C W url options st)) = calls (snd (try_stage C W url options st))"
  "metricsTracker (snd (Fetcher_fetch C W url options st))
     = metricsTracker (snd (try_stage C W url options st))"
  "body_reads (snd (Fetcher_fetch C W url options st))
     = body_reads (snd (try_stage C W url options st))"
  "clock (snd (Fetcher_fetch C W url options st)) = clock (snd (try_stage C W url options st))"
  by (simp_all add: Fetcher_fetch_eq split: prod.splits sum.splits)

lemma observations_cong:
  "metricsTracker s = metricsTracker t \<Longrightarrow> observations s = observations t"
  by (simp add: observations_def)

lemma Fetcher_fetch_reaches:
  assumes "shouldTrackRequest_of C options st \<longrightarrow> \<not> isl (URL_host W url)"
  shows "fst (Fetcher_fetch C W url options st)
     = (case fst (private_fetch C W url (length (heap st)) 1 (after_merge C options st)) of
          Inl e \<Rightarrow> Inl e
        | Inr r \<Rightarrow>
            (case drain r of
               Inl e \<Rightarrow> Inl e
             | Inr b \<Rightarrow> Inr \<lparr>raw = r, closure_url = url, closure_buffer = b\<rparr>))"
    and "calls (snd (Fetcher_fetch C W url options st))
     = calls (snd (private_fetch C W url (length (heap st)) 1 (after_merge C options st)))"
proof -
  have r: "shouldTrackRequest_of C options st \<longrightarrow> (\<exists>h. URL_host W url = Inr h)"
    using assms by (cases "URL_host W url") simp_all
  show "fst (Fetcher_fetch C W url options st)
     = (case fst (private_fetch C W url (length (heap st)) 1 (after_merge C options st)) of
          Inl e \<Rightarrow> Inl e
        | Inr r \<Rightarrow>
            (case drain r of
               Inl e \<Rightarrow> Inl e
             | Inr b \<Rightarrow> Inr \<lparr>raw = r, closure_url = url, closure_buffer = b\<rparr>))"
    by (simp add: Fetcher_fetch_fst try_stage_fst call_stage_reaches(1)[OF r])
  show "calls (snd (Fetcher_fetch C W url options st))
     = calls (snd (private_fetch C W url (length (heap st)) 1 (after_merge C options st)))"
    by (simp add: Fetcher_fetch_frame try_stage_frame call_stage_reaches(2)[OF r])
qed

subsection \<open>Messages\<close>

lemma sublist_warn_url: "sublist url (warn_message url n)"
  unfolding warn_message_def by (rule sublist_appendI)

lemma sublist_warn_secs: "sublist (show_nat n) (warn_message url n)"
proof -
  have "warn_message url n
          = (''Request to '' @ url @ '' took '') @ show_nat n @ '' seconds to execute.''"
    by (simp add: warn_message_def)
  then show ?thesis by (metis sublist_appendI)
qed

lemma sublist_error_url: "sublist url (error_message url e n)"
  unfolding error_message_def by (rule sublist_appendI)

lemma sublist_error_message: "sublist (message e) (error_message url e n)"
proof -
  have "error_message url e n
          = (''Failed request for '' @ url @ '' with '' @ [CHR 0x22]) @ message e
            @ ([CHR 0x22] @ '' after '' @ show_nat n @ '' seconds'')"
    by (simp add: error_message_def)
  then show ?thesis by (metis sublist_appendI)
qed

lemma sublist_error_secs: "sublist (show_nat n) (error_message url e n)"
proof -
  have "error_message url e n
          = (''Failed request for '' @ url @ '' with '' @ [CHR 0x22] @ message e
             @ [CHR 0x22] @ '' after '') @ show_nat n @ '' seconds''"
    by (simp add: error_message_def)
  then show ?thesis by (metis sublist_appendI)
qed

lemma sublist_json_url: "sublist url (json_error_message url s body e)"
  unfolding json_error_message_def by (rule sublist_appendI)

lemma sublist_json_status: "sublist (show_nat s) (json_error_message url s body e)"
proof -
  have "json_error_message url s body e
          = (''Error parsing response from '' @ url @ ''. Status: '') @ show_nat s
            @ (''. Body: '' @ body @ ''. '' @ e)"
    by (simp add: json_error_message_def)
  then show ?thesis by (metis sublist_appendI)
qed

lemma sublist_json_body: "sublist body (json_error_message url s body e)"
proof -
  have "json_error_message url s body e
          = (''Error parsing response from '' @ url @ ''. Status: '' @ show_nat s
             @ ''. Body: '') @ body @ (''. '' @ e)"
    by (simp add: json_error_message_def)
  then show ?thesis by (metis sublist_appendI)
qed

subsection \<open>Successful calls and the accessors\<close>

lemma Fetcher_fetch_success:
  assumes "fst (Fetcher_fetch C W url options st) = Inr resp"
  shows "fst (call_stage C W url options st) = Inr (raw resp)"
    and "drain (raw resp) = Inr (closure_buffer resp)"
    and "closure_url resp = url"
    and "body_reads (snd (Fetcher_fetch C W url options st)) = body_reads st + 1"
proof -
  from assms have t: "fst (try_stage C W url options st) = Inr resp"
    by (simp add: Fetcher_fetch_fst)
  then obtain r where r: "fst (call_stage C W url options st) = Inr r"
    by (cases "fst (call_stage C W url options st)") (simp_all add: try_stage_fst)
  with t obtain b where b: "drain r = Inr b"
    "resp = \<lparr>raw = r, closure_url = url, closure_buffer = b\<rparr>"
    by (cases "drain r") (simp_all add: try_stage_fst)
  show "fst (call_stage C W url options st) = Inr (raw resp)" using r b by simp
  show "drain (raw resp) = Inr (closure_buffer resp)" using b by simp
  show "closure_url resp = url" using b by simp
  show "body_reads (snd (Fetcher_fetch C W url options st)) = body_reads st + 1"
    using r by (simp add: Fetcher_fetch_frame try_stage_frame)
qed

lemma call_accessors_eq:
  "call_accessors W resp as s
     = (map (\<lambda>a. case a of
                    A_text \<Rightarrow> Inr (R_text (Buffer_toString W (closure_buffer resp)))
                  | A_json \<Rightarrow>
                      map_sum
                        (json_error_message (closure_url resp) (status (raw resp))
                           (Buffer_toString W (closure_buffer resp)))
                        R_json
                        (JSON_parse W (Buffer_toString W (closure_buffer resp)))
                  | A_buffer \<Rightarrow> Inr (R_buffer (closure_buffer resp))) as, s)"
proof (induction as arbitrary: s)
  case Nil
  show ?case by simp
next
  case (Cons a as)
  show ?case
    by (cases a)
      (simp_all add: Cons.IH call_accessor_def response_text_def response_json_def
        response_buffer_def split: sum.splits)
qed

lemma private_fetch_ignores_JSON_parse:
  "private_fetch C (W\<lparr>JSON_parse := p\<rparr>) url m retries st = private_fetch C W url m retries st"
proof (induction C W url m retries st rule: private_fetch.induct)
  case (1 C W url options retries st)
  have i: "issue (W\<lparr>JSON_parse := p\<rparr>) url options st = issue W url options st"
    by (simp add: issue_def)
  show ?case
  proof (cases "outcome (node_fetch W url (obj_at (heap st) options) (calls st))")
    case (Inr r)
    then have "outcome (node_fetch (W\<lparr>JSON_parse := p\<rparr>) url (obj_at (heap st) options) (calls st))
                 = Inr r" by simp
    from private_fetch_Inr[OF this] private_fetch_Inr[OF Inr] show ?thesis
      by (simp add: after_attempt_def i)
  next
    case (Inl e)
    then have Inl': "outcome (node_fetch (W\<lparr>JSON_parse := p\<rparr>) url (obj_at (heap st) options) (calls st))
                 = Inl e" by simp
    show ?thesis
    proof (cases "retries < MaxRetries C \<and> err_type e \<noteq> Some (TimeoutErrorString C)")
      case False
      from private_fetch_stop[OF Inl' False] private_fetch_stop[OF Inl False] show ?thesis
        by (simp add: after_attempt_def i)
    next
      case True
      have ih: "private_fetch C (W\<lparr>JSON_parse := p\<rparr>) url options (retries + 1)
                  (after_attempt W url options st)
                = private_fetch C W url options (retries + 1) (after_attempt W url options st)"
        using "1.IH"[of "Inl e" "after_attempt W url options st" e] Inl True
        by (simp add: issue_eq)
      from True have t1: "retries < MaxRetries C" and t2: "err_type e \<noteq> Some (TimeoutErrorString C)"
        by simp_all
      from private_fetch_retry[OF Inl' t1 t2] private_fetch_retry[OF Inl t1 t2] ih
      show ?thesis by (simp add: after_attempt_def i)
    qed
  qed
qed

lemma Fetcher_fetch_ignores_JSON_parse:
  "Fetcher_fetch C (W\<lparr>JSON_parse := p\<rparr>) url options st = Fetcher_fetch C W url options st"
proof -
  have pf: "private_fetch C (W\<lparr>JSON_parse := p\<rparr>) url m 1 = private_fetch C W url m 1" for m
    by (rule ext) (rule private_fetch_ignores_JSON_parse)
  have "fetch_call C (W\<lparr>JSON_parse := p\<rparr>) url m t s = fetch_call C W url m t s" for m t s
    by (simp add: fetch_call_def pf Let_def split: sum.splits)
  then have "fetch_try C (W\<lparr>JSON_parse := p\<rparr>) url m t c s = fetch_try C W url m t c s"
    for m t c s
    by (simp add: fetch_try_def)
  then show ?thesis by (simp add: Fetcher_fetch_def split: prod.splits)
qed

subsection \<open>Unfolding the samples\<close>

lemmas sample_defs =
  sample_constants_def connection_reset_def request_timeout_def invalid_url_def
  only_absolute_urls_def response_with_def id_1_body_def items_url_def sample_world_def
  reset_twice_then_ok_def always_reset_def slow_timeout_def ok_not_json_def slow_ok_def
  unavailable_def initial_state_def body_stream_error_def broken_body_response_def
  reset_twice_then_broken_body_def

lemmas model_defs =
  Fetcher_fetch_def Fetcher_setDefaultOptions_def fetch_try_def fetch_call_def
  trackHistogramDuration_def observe_def collectDefaultMetrics_def observations_def
  issue_def obj_at_def hrtime_seconds_def Object_assign_def set_prop_def get_prop_def
  warn_message_def error_message_def json_error_message_def Let_def
  mergedOptions_of_def shouldTrackRequest_of_def call_stage_def try_stage_def
  transient_failure_def

subsection \<open>Two sample runs\<close>

lemma run_reset_twice_then_ok:
  "Fetcher_fetch sample_constants (sample_world reset_twice_then_ok) items_url None initial_state
     = (Inr id_1_response, state_after 8000000 3)"
  by (simp add: private_fetch.simps sample_defs model_defs id_1_response_def state_after_def)

lemma run_ok_not_json:
  "Fetcher_fetch sample_constants (sample_world ok_not_json) items_url None initial_state
     = (Inr oops_response, state_after 4000000 1)"
  by (simp add: private_fetch.simps sample_defs model_defs oops_response_def state_after_def)

section \<open>The claims\<close>

subsection \<open>C1: the slow-call warning\<close>

text \<open>
  C1, as amended. The warning is decided at one point only: after the call of the retrying
  transport has returned a response, before the body is read. If the whole seconds elapsed
  from the start of \<open>fetch\<close> to that point are at least \<open>WarnAfterSeconds\<close>, the call logs exactly
  one warning line, which contains the URL and those seconds; otherwise it logs none. This
  holds whether the call is tracked or not, and whether reading the body then fails or not.
  A call in which the transport call itself fails logs no warning line at all, however long
  it took.
\<close>

theorem slow_call_warning_after_response:
  "filter is_warn (drop (length (logs st)) (logs (snd (Fetcher_fetch C W url options st))))
     = (case fst (call_stage C W url options st) of
          Inl e \<Rightarrow> []
        | Inr r \<Rightarrow>
            if WarnAfterSeconds C
                 \<le> int (hrtime_seconds (clock st) (snd (call_stage C W url options st)))
            then [Warn (warn_message url
                          (hrtime_seconds (clock st) (snd (call_stage C W url options st))))]
            else [])
   \<and> sublist url (warn_message url n) \<and> sublist (show_nat n) (warn_message url n)"
proof -
  have "filter is_warn (drop (length (logs st)) (logs (snd (Fetcher_fetch C W url options st))))
     = (case fst (call_stage C W url options st) of
          Inl e \<Rightarrow> []
        | Inr r \<Rightarrow>
            if WarnAfterSeconds C
                 \<le> int (hrtime_seconds (clock st) (snd (call_stage C W url options st)))
            then [Warn (warn_message url
                          (hrtime_seconds (clock st) (snd (call_stage C W url options st))))]
            else [])"
    by (simp add: Fetcher_fetch_logs try_stage_logs split: sum.splits)
  then show ?thesis using sublist_warn_url sublist_warn_secs by blast
qed

text \<open>
  A run for C1: the transport answers after six seconds, the threshold is five. The warning
  is logged once when the call opts out of tracking and once when it is tracked.
\<close>

theorem slow_call_warning_after_response_witness:
  "filter is_warn
     (drop (length (logs initial_state))
        (logs (snd (Fetcher_fetch sample_constants (sample_world slow_ok) items_url (Some 1)
                      (collectDefaultMetrics initial_state)))))
     = [Warn ''Request to https://api.example.com/items took 6 seconds to execute.'']
   \<and> filter is_warn
     (drop (length (logs initial_state))
        (logs (snd (Fetcher_fetch sample_constants (sample_world slow_ok) items_url (Some 0)
                      (collectDefaultMetrics initial_state)))))
     = [Warn ''Request to https://api.example.com/items took 6 seconds to execute.'']"
  using
    slow_call_warning_after_response[of "collectDefaultMetrics initial_state" sample_constants
      "sample_world slow_ok" items_url "Some 1" 6]
    slow_call_warning_after_response[of "collectDefaultMetrics initial_state" sample_constants
      "sample_world slow_ok" items_url "Some 0" 6]
  by (simp add: private_fetch.simps sample_defs model_defs)

text \<open>
  C1 as stated fails on a slow call that fails: the transport times out after ten seconds,
  twice the threshold, and the logger receives one error line and no warning line.
\<close>

theorem slow_failing_call_counterexample:
  "WarnAfterSeconds sample_constants
     \<le> int (hrtime_seconds (clock initial_state)
               (snd (Fetcher_fetch sample_constants (sample_world slow_timeout) items_url None
                       initial_state)))
   \<and> filter is_warn
        (logs (snd (Fetcher_fetch sample_constants (sample_world slow_timeout) items_url None
                      initial_state))) = []
   \<and> logs (snd (Fetcher_fetch sample_constants (sample_world slow_timeout) items_url None
                  initial_state))
       = [Error (''Failed request for https://api.example.com/items with '' @ [CHR 0x22]
                 @ ''network timeout'' @ [CHR 0x22] @ '' after 10 seconds'')]"
  by (simp add: private_fetch.simps sample_defs model_defs)

subsection \<open>C2: exhausting the retries\<close>

text \<open>
  C2. Let \<open>MaxRetries\<close> be at least 1 and let each of the next \<open>MaxRetries\<close> calls of the
  transport fail with an error that is not classified as a timeout. Then the retrying
  transport, started with attempt number 1, makes exactly \<open>MaxRetries\<close> calls and fails with
  the very error of the last of them. The same holds for \<open>fetch\<close> as a whole, whenever the
  call reaches the transport (it is not tracked, or \<open>new URL\<close> accepts the URL).
\<close>

theorem retries_exhausted_last_error:
  assumes "1 \<le> MaxRetries C"
    and "\<forall>k. calls st \<le> k \<and> k < calls st + nat (MaxRetries C)
             \<longrightarrow> transient_failure C (node_fetch W url ob k)"
  shows "(obj_at (heap st) m = ob \<longrightarrow>
            (\<exists>e. outcome (node_fetch W url ob (calls st + nat (MaxRetries C) - 1)) = Inl e
                 \<and> fst (private_fetch C W url m 1 st) = Inl e)
            \<and> calls (snd (private_fetch C W url m 1 st)) = calls st + nat (MaxRetries C))
       \<and> (mergedOptions_of C options st = ob
            \<and> (shouldTrackRequest_of C options st \<longrightarrow> \<not> isl (URL_host W url)) \<longrightarrow>
            (\<exists>e. outcome (node_fetch W url ob (calls st + nat (MaxRetries C) - 1)) = Inl e
                 \<and> fst (Fetcher_fetch C W url options st) = Inl e)
            \<and> calls (snd (Fetcher_fetch C W url options st)) = calls st + nat (MaxRetries C))"
proof (intro conjI impI)
  assume ob: "obj_at (heap st) m = ob"
  from private_fetch_exhausts[OF assms(1), of st W url m] assms(2) ob
  obtain e st' where *: "private_fetch C W url m 1 st = (Inl e, st')"
    "calls st' = calls st + nat (MaxRetries C)"
    "outcome (node_fetch W url ob (calls st + nat (MaxRetries C) - 1)) = Inl e"
    by auto
  show "\<exists>e. outcome (node_fetch W url ob (calls st + nat (MaxRetries C) - 1)) = Inl e
                 \<and> fst (private_fetch C W url m 1 st) = Inl e"
    using * by simp
  show "calls (snd (private_fetch C W url m 1 st)) = calls st + nat (MaxRetries C)"
    using * by simp
next
  assume a: "mergedOptions_of C options st = ob
            \<and> (shouldTrackRequest_of C options st \<longrightarrow> \<not> isl (URL_host W url))"
  let ?st0 = "after_merge C options st"
  have ob0: "obj_at (heap ?st0) (length (heap st)) = ob"
    using a by (simp add: after_merge_simps(2))
  have c0: "calls ?st0 = calls st" by (simp add: after_merge_simps(3))
  have h: "\<forall>k. calls ?st0 \<le> k \<and> k < calls ?st0 + nat (MaxRetries C)
             \<longrightarrow> transient_failure C (node_fetch W url (obj_at (heap ?st0) (length (heap st))) k)"
    unfolding ob0 c0 by (rule assms(2))
  from private_fetch_exhausts[OF assms(1) h]
  obtain e st' where *: "private_fetch C W url (length (heap st)) 1 ?st0 = (Inl e, st')"
    "calls st' = calls st + nat (MaxRetries C)"
    "outcome (node_fetch W url ob (calls st + nat (MaxRetries C) - 1)) = Inl e"
    unfolding ob0 c0 by blast
  have r: "shouldTrackRequest_of C options st \<longrightarrow> \<not> isl (URL_host W url)" using a by simp
  show "\<exists>e. outcome (node_fetch W url ob (calls st + nat (MaxRetries C) - 1)) = Inl e
                 \<and> fst (Fetcher_fetch C W url options st) = Inl e"
    using * by (simp add: Fetcher_fetch_reaches(1)[OF r])
  show "calls (snd (Fetcher_fetch C W url options st)) = calls st + nat (MaxRetries C)"
    using * by (simp add: Fetcher_fetch_reaches(2)[OF r])
qed

text \<open>
  A run for C2: with \<open>MaxRetries = 3\<close> and a transport that always resets the connection,
  three calls are made and the error of the third (identity 2) comes out.
\<close>

theorem retries_exhausted_last_error_witness:
  "1 \<le> MaxRetries sample_constants
   \<and> transient_failure sample_constants
        (node_fetch (sample_world always_reset) items_url [(''method'', JStr ''GET'')] 0)
   \<and> transient_failure sample_constants
        (node_fetch (sample_world always_reset) items_url [(''method'', JStr ''GET'')] 1)
   \<and> transient_failure sample_constants
        (node_fetch (sample_world always_reset) items_url [(''method'', JStr ''GET'')] 2)
   \<and> fst (private_fetch sample_constants (sample_world always_reset) items_url 0 1 initial_state)
       = Inl (connection_reset 2)
   \<and> calls (snd (private_fetch sample_constants (sample_world always_reset) items_url 0 1
                    initial_state)) = 3
   \<and> fst (Fetcher_fetch sample_constants (sample_world always_reset) items_url None
             (collectDefaultMetrics initial_state)) = Inl (connection_reset 2)
   \<and> calls (snd (Fetcher_fetch sample_constants (sample_world always_reset) items_url None
                    (collectDefaultMetrics initial_state))) = 3"
proof -
  have h1: "1 \<le> MaxRetries sample_constants" by (simp add: sample_defs)
  have h2: "\<forall>k. calls initial_state \<le> k
               \<and> k < calls initial_state + nat (MaxRetries sample_constants)
          \<longrightarrow> transient_failure sample_constants
                (node_fetch (sample_world always_reset) items_url [(''method'', JStr ''GET'')] k)"
    by (simp add: sample_defs model_defs)
  have h2': "\<forall>k. calls (collectDefaultMetrics initial_state) \<le> k
               \<and> k < calls (collectDefaultMetrics initial_state) + nat (MaxRetries sample_constants)
          \<longrightarrow> transient_failure sample_constants
                (node_fetch (sample_world always_reset) items_url [(''method'', JStr ''GET'')] k)"
    by (simp add: sample_defs model_defs)
  have o: "obj_at (heap initial_state) 0 = [(''method'', JStr ''GET'')]"
    by (simp add: sample_defs model_defs)
  have m: "mergedOptions_of sample_constants None (collectDefaultMetrics initial_state)
             = [(''method'', JStr ''GET'')]
           \<and> (shouldTrackRequest_of sample_constants None (collectDefaultMetrics initial_state)
                \<longrightarrow> \<not> isl (URL_host (sample_world always_reset) items_url))"
    by (simp add: sample_defs model_defs)
  have v: "outcome (node_fetch (sample_world always_reset) items_url [(''method'', JStr ''GET'')] 2)
             = Inl (connection_reset 2)"
    by (simp add: sample_defs)
  have c: "calls initial_state = 0" "calls (collectDefaultMetrics initial_state) = 0"
    "nat (MaxRetries sample_constants) = 3"
    by (simp_all add: sample_defs model_defs)
  from retries_exhausted_last_error[OF h1 h2, of 0 None] o
  have p: "fst (private_fetch sample_constants (sample_world always_reset) items_url 0 1
                  initial_state) = Inl (connection_reset 2)
           \<and> calls (snd (private_fetch sample_constants (sample_world always_reset) items_url 0 1
                    initial_state)) = 3"
    using v c by simp
  from retries_exhausted_last_error[OF h1 h2', of 0 None] m
  have f: "fst (Fetcher_fetch sample_constants (sample_world always_reset) items_url None
                  (collectDefaultMetrics initial_state)) = Inl (connection_reset 2)
           \<and> calls (snd (Fetcher_fetch sample_constants (sample_world always_reset) items_url None
                    (collectDefaultMetrics initial_state))) = 3"
    using v c by simp
  have t: "transient_failure sample_constants
             (node_fetch (sample_world always_reset) items_url [(''method'', JStr ''GET'')] k)"
    for k
    by (simp add: sample_defs model_defs)
  from h1 t p f show ?thesis by blast
qed

subsection \<open>C3: success on the last attempt\<close>

text \<open>
  C3, as amended. Let \<open>MaxRetries\<close> be at least 1, let each of the next \<open>MaxRetries - 1\<close>
  calls of the transport fail with an error that is not classified as a timeout, and let the
  call after them return the response \<open>r\<close>. Then the retrying transport returns \<open>r\<close> after
  exactly \<open>MaxRetries\<close> calls: the ceiling includes the last attempt. And \<open>fetch\<close>, when the
  call reaches the transport and the body of \<open>r\<close> can be read, returns \<open>r\<close> with its accessors
  over the bytes read.
\<close>

theorem last_attempt_success_is_returned:
  assumes "1 \<le> MaxRetries C"
    and "\<forall>k. calls st \<le> k \<and> k < calls st + nat (MaxRetries C) - 1
             \<longrightarrow> transient_failure C (node_fetch W url ob k)"
    and "outcome (node_fetch W url ob (calls st + nat (MaxRetries C) - 1)) = Inr r"
  shows "(obj_at (heap st) m = ob \<longrightarrow>
            fst (private_fetch C W url m 1 st) = Inr r
            \<and> calls (snd (private_fetch C W url m 1 st)) = calls st + nat (MaxRetries C))
       \<and> (mergedOptions_of C options st = ob
            \<and> (shouldTrackRequest_of C options st \<longrightarrow> \<not> isl (URL_host W url))
            \<and> drain r = Inr b \<longrightarrow>
            fst (Fetcher_fetch C W url options st)
              = Inr \<lparr>raw = r, closure_url = url, closure_buffer = b\<rparr>
            \<and> calls (snd (Fetcher_fetch C W url options st)) = calls st + nat (MaxRetries C))"
proof (intro conjI impI)
  assume ob: "obj_at (heap st) m = ob"
  from private_fetch_last_attempt_succeeds[OF assms(1), of st W url m r] assms(2,3) ob
  obtain st' where *: "private_fetch C W url m 1 st = (Inr r, st')"
    "calls st' = calls st + nat (MaxRetries C)"
    by auto
  show "fst (private_fetch C W url m 1 st) = Inr r" using * by simp
  show "calls (snd (private_fetch C W url m 1 st)) = calls st + nat (MaxRetries C)"
    using * by simp
next
  assume a: "mergedOptions_of C options st = ob
            \<and> (shouldTrackRequest_of C options st \<longrightarrow> \<not> isl (URL_host W url))
            \<and> drain r = Inr b"
  let ?st0 = "after_merge C options st"
  have ob0: "obj_at (heap ?st0) (length (heap st)) = ob"
    using a by (simp add: after_merge_simps(2))
  have c0: "calls ?st0 = calls st" by (simp add: after_merge_simps(3))
  have h: "\<forall>k. calls ?st0 \<le> k \<and> k < calls ?st0 + nat (MaxRetries C) - 1
             \<longrightarrow> transient_failure C (node_fetch W url (obj_at (heap ?st0) (length (heap st))) k)"
    unfolding ob0 c0 by (rule assms(2))
  have h3: "outcome (node_fetch W url (obj_at (heap ?st0) (length (heap st)))
               (calls ?st0 + nat (MaxRetries C) - 1)) = Inr r"
    unfolding ob0 c0 by (rule assms(3))
  from private_fetch_last_attempt_succeeds[OF assms(1) h h3]
  obtain st' where *: "private_fetch C W url (length (heap st)) 1 ?st0 = (Inr r, st')"
    "calls st' = calls st + nat (MaxRetries C)"
    unfolding c0 by blast
  have r: "shouldTrackRequest_of C options st \<longrightarrow> \<not> isl (URL_host W url)" using a by simp
  show "fst (Fetcher_fetch C W url options st)
              = Inr \<lparr>raw = r, closure_url = url, closure_buffer = b\<rparr>"
    using * a by (simp add: Fetcher_fetch_reaches(1)[OF r])
  show "calls (snd (Fetcher_fetch C W url options st)) = calls st + nat (MaxRetries C)"
    using * by (simp add: Fetcher_fetch_reaches(2)[OF r])
qed

text \<open>
  A run for C3, the scenario of the specification: two connection resets, then status 200
  with the body \<open>{"id":1}\<close>, and \<open>MaxRetries = 3\<close>.
\<close>

theorem last_attempt_success_is_returned_witness:
  "1 \<le> MaxRetries sample_constants
   \<and> transient_failure sample_constants
        (node_fetch (sample_world reset_twice_then_ok) items_url [(''method'', JStr ''GET'')] 0)
   \<and> transient_failure sample_constants
        (node_fetch (sample_world reset_twice_then_ok) items_url [(''method'', JStr ''GET'')] 1)
   \<and> outcome (node_fetch (sample_world reset_twice_then_ok) items_url
                 [(''method'', JStr ''GET'')] 2) = Inr (response_with 200 id_1_body)
   \<and> fst (private_fetch sample_constants (sample_world reset_twice_then_ok) items_url 0 1
             initial_state) = Inr (response_with 200 id_1_body)
   \<and> fst (Fetcher_fetch sample_constants (sample_world reset_twice_then_ok) items_url (Some 0)
             initial_state)
       = Inr \<lparr>raw = response_with 200 id_1_body, closure_url = items_url,
              closure_buffer = id_1_body\<rparr>
   \<and> calls (snd (Fetcher_fetch sample_constants (sample_world reset_twice_then_ok) items_url
                    (Some 0) initial_state)) = 3"
proof -
  have h1: "1 \<le> MaxRetries sample_constants" by (simp add: sample_defs)
  have h2: "\<forall>k. calls initial_state \<le> k
            \<and> k < calls initial_state + nat (MaxRetries sample_constants) - 1
          \<longrightarrow> transient_failure sample_constants
                (node_fetch (sample_world reset_twice_then_ok) items_url
                   [(''method'', JStr ''GET'')] k)"
    by (simp add: sample_defs model_defs)
  have h3: "outcome (node_fetch (sample_world reset_twice_then_ok) items_url
                       [(''method'', JStr ''GET'')]
                       (calls initial_state + nat (MaxRetries sample_constants) - 1))
              = Inr (response_with 200 id_1_body)"
    by (simp add: sample_defs)
  have o: "obj_at (heap initial_state) 0 = [(''method'', JStr ''GET'')]"
    by (simp add: sample_defs model_defs)
  have m: "mergedOptions_of sample_constants (Some 0) initial_state = [(''method'', JStr ''GET'')]
           \<and> (shouldTrackRequest_of sample_constants (Some 0) initial_state
                \<longrightarrow> \<not> isl (URL_host (sample_world reset_twice_then_ok) items_url))
           \<and> drain (response_with 200 id_1_body) = Inr id_1_body"
    by (simp add: sample_defs model_defs)
  have c: "calls initial_state + nat (MaxRetries sample_constants) = 3"
    by (simp add: sample_defs)
  have t: "transient_failure sample_constants
             (node_fetch (sample_world reset_twice_then_ok) items_url
                [(''method'', JStr ''GET'')] 0)"
    "transient_failure sample_constants
             (node_fetch (sample_world reset_twice_then_ok) items_url
                [(''method'', JStr ''GET'')] 1)"
    "outcome (node_fetch (sample_world reset_twice_then_ok) items_url
                 [(''method'', JStr ''GET'')] 2) = Inr (response_with 200 id_1_body)"
    by (simp_all add: sample_defs model_defs)
  from last_attempt_success_is_returned[OF h1 h2 h3, of 0 "Some 0" id_1_body] o m c h1 t
  show ?thesis by simp
qed

text \<open>
  C3 as stated fails on a response whose body cannot be read: after two connection resets
  the third call of the transport returns a response with status 200, which the retrying
  transport returns, but the read of its body in line 58 throws, and \<open>fetch\<close> fails with that
  error after the three calls.
\<close>

theorem unreadable_body_counterexample:
  "1 \<le> MaxRetries sample_constants
   \<and> transient_failure sample_constants
        (node_fetch (sample_world reset_twice_then_broken_body) items_url
           [(''method'', JStr ''GET'')] 0)
   \<and> transient_failure sample_constants
        (node_fetch (sample_world reset_twice_then_broken_body) items_url
           [(''method'', JStr ''GET'')] 1)
   \<and> outcome (node_fetch (sample_world reset_twice_then_broken_body) items_url
                 [(''method'', JStr ''GET'')] 2) = Inr broken_body_response
   \<and> fst (private_fetch sample_constants (sample_world reset_twice_then_broken_body) items_url
             0 1 initial_state) = Inr broken_body_response
   \<and> fst (Fetcher_fetch sample_constants (sample_world reset_twice_then_broken_body) items_url
             (Some 0) initial_state) = Inl body_stream_error
   \<and> calls (snd (Fetcher_fetch sample_constants (sample_world reset_twice_then_broken_body)
                    items_url (Some 0) initial_state)) = 3"
  by (simp add: private_fetch.simps sample_defs model_defs)

subsection \<open>C4: a timeout is not retried\<close>

text \<open>
  C4. If the next call of the transport fails with an error whose type is the timeout
  string, the retrying transport fails with that error after this one call, whatever the
  attempt number and whatever \<open>MaxRetries\<close> is; and \<open>fetch\<close>, when the call reaches the
  transport, fails with that error after exactly one call of the transport.
\<close>

theorem timeout_is_not_retried:
  assumes "outcome (node_fetch W url ob (calls st)) = Inl e"
    and "err_type e = Some (TimeoutErrorString C)"
  shows "(obj_at (heap st) m = ob \<longrightarrow>
            private_fetch C W url m retries st
              = (Inl e, st\<lparr>clock := clock st + attempt_ns (node_fetch W url ob (calls st)),
                           calls := calls st + 1\<rparr>))
       \<and> (mergedOptions_of C options st = ob
            \<and> (shouldTrackRequest_of C options st \<longrightarrow> \<not> isl (URL_host W url)) \<longrightarrow>
            fst (Fetcher_fetch C W url options st) = Inl e
            \<and> calls (snd (Fetcher_fetch C W url options st)) = calls st + 1)"
proof (intro conjI impI)
  assume ob: "obj_at (heap st) m = ob"
  then show "private_fetch C W url m retries st
              = (Inl e, st\<lparr>clock := clock st + attempt_ns (node_fetch W url ob (calls st)),
                           calls := calls st + 1\<rparr>)"
    using assms by (simp add: private_fetch_timeout after_attempt_def issue_def Let_def)
next
  assume a: "mergedOptions_of C options st = ob
            \<and> (shouldTrackRequest_of C options st \<longrightarrow> \<not> isl (URL_host W url))"
  let ?st0 = "after_merge C options st"
  have ob0: "obj_at (heap ?st0) (length (heap st)) = ob"
    using a by (simp add: after_merge_simps(2))
  have c0: "calls ?st0 = calls st" by (simp add: after_merge_simps(3))
  have "outcome (node_fetch W url (obj_at (heap ?st0) (length (heap st))) (calls ?st0)) = Inl e"
    unfolding ob0 c0 by (rule assms(1))
  from private_fetch_timeout[OF this assms(2)]
  have *: "private_fetch C W url (length (heap st)) 1 ?st0
             = (Inl e, after_attempt W url (length (heap st)) ?st0)" .
  have r: "shouldTrackRequest_of C options st \<longrightarrow> \<not> isl (URL_host W url)" using a by simp
  show "fst (Fetcher_fetch C W url options st) = Inl e"
    using * by (simp add: Fetcher_fetch_reaches(1)[OF r])
  show "calls (snd (Fetcher_fetch C W url options st)) = calls st + 1"
    using * by (simp add: Fetcher_fetch_reaches(2)[OF r] after_attempt_simps after_merge_simps)
qed

text \<open>
  A run for C4: the transport times out, \<open>MaxRetries\<close> is 3, one call is made.
\<close>

theorem timeout_is_not_retried_witness:
  "outcome (node_fetch (sample_world slow_timeout) items_url [(''method'', JStr ''GET'')]
              (calls initial_state)) = Inl (request_timeout 0)
   \<and> err_type (request_timeout 0) = Some (TimeoutErrorString sample_constants)
   \<and> private_fetch sample_constants (sample_world slow_timeout) items_url 0 1 initial_state
       = (Inl (request_timeout 0), initial_state\<lparr>clock := 10000000000, calls := 1\<rparr>)
   \<and> fst (Fetcher_fetch sample_constants (sample_world slow_timeout) items_url None
             (collectDefaultMetrics initial_state)) = Inl (request_timeout 0)
   \<and> calls (snd (Fetcher_fetch sample_constants (sample_world slow_timeout) items_url None
                    (collectDefaultMetrics initial_state))) = 1"
proof -
  have h1: "outcome (node_fetch (sample_world slow_timeout) items_url [(''method'', JStr ''GET'')]
              (calls initial_state)) = Inl (request_timeout 0)"
    by (simp add: sample_defs)
  have h1': "outcome (node_fetch (sample_world slow_timeout) items_url [(''method'', JStr ''GET'')]
              (calls (collectDefaultMetrics initial_state))) = Inl (request_timeout 0)"
    by (simp add: sample_defs model_defs)
  have h2: "err_type (request_timeout 0) = Some (TimeoutErrorString sample_constants)"
    by (simp add: sample_defs)
  have o: "obj_at (heap initial_state) 0 = [(''method'', JStr ''GET'')]"
    by (simp add: sample_defs model_defs)
  have m: "mergedOptions_of sample_constants None (collectDefaultMetrics initial_state)
             = [(''method'', JStr ''GET'')]
           \<and> (shouldTrackRequest_of sample_constants None (collectDefaultMetrics initial_state)
                \<longrightarrow> \<not> isl (URL_host (sample_world slow_timeout) items_url))"
    by (simp add: sample_defs model_defs)
  have s: "initial_state\<lparr>clock := clock initial_state
             + attempt_ns (node_fetch (sample_world slow_timeout) items_url
                             [(''method'', JStr ''GET'')] (calls initial_state)),
             calls := calls initial_state + 1\<rparr>
           = initial_state\<lparr>clock := 10000000000, calls := 1\<rparr>"
    by (simp add: sample_defs)
  have c: "calls (collectDefaultMetrics initial_state) + 1 = 1"
    by (simp add: sample_defs model_defs)
  from timeout_is_not_retried[OF h1 h2, of 0 1 None] o s
  have p: "private_fetch sample_constants (sample_world slow_timeout) items_url 0 1 initial_state
       = (Inl (request_timeout 0), initial_state\<lparr>clock := 10000000000, calls := 1\<rparr>)"
    by simp
  from timeout_is_not_retried[OF h1' h2, of 0 1 None] m c
  have f: "fst (Fetcher_fetch sample_constants (sample_world slow_timeout) items_url None
             (collectDefaultMetrics initial_state)) = Inl (request_timeout 0)
   \<and> calls (snd (Fetcher_fetch sample_constants (sample_world slow_timeout) items_url None
                    (collectDefaultMetrics initial_state))) = 1"
    by simp
  from h1 h2 p f show ?thesis by blast
qed

subsection \<open>C5: one read of the body, accessors over the buffer\<close>

text \<open>
  C5, as amended. When \<open>fetch\<close> returns a response, the body stream of the transport's
  response has been read exactly once, and the buffer of the returned response holds the
  bytes of that read. Whatever sequence of accessors is then called, the state does not
  change (no further read), every \<open>text()\<close> gives the decoded buffer, every \<open>buffer()\<close> the
  buffer, and every \<open>json()\<close> what \<open>JSON.parse\<close> gives on the decoded buffer: the parsed
  value when the text is valid JSON, and the same error each time when it is not. So
  \<open>text()\<close> and \<open>buffer()\<close> always succeed, and \<open>json()\<close> succeeds exactly when the body is
  valid JSON.
\<close>

theorem body_read_once_accessors_from_buffer:
  assumes "Fetcher_fetch C W url options st = (Inr resp, st')"
  shows "body_reads st' = body_reads st + 1
       \<and> drain (raw resp) = Inr (closure_buffer resp)
       \<and> call_accessors W resp as s
           = (map (\<lambda>a. case a of
                    A_text \<Rightarrow> Inr (R_text (Buffer_toString W (closure_buffer resp)))
                  | A_json \<Rightarrow>
                      map_sum
                        (json_error_message url (status (raw resp))
                           (Buffer_toString W (closure_buffer resp)))
                        R_json
                        (JSON_parse W (Buffer_toString W (closure_buffer resp)))
                  | A_buffer \<Rightarrow> Inr (R_buffer (closure_buffer resp))) as, s)"
proof -
  from assms have f: "fst (Fetcher_fetch C W url options st) = Inr resp"
    and s: "snd (Fetcher_fetch C W url options st) = st'" by simp_all
  have u: "closure_url resp = url" by (rule Fetcher_fetch_success(3)[OF f])
  have "body_reads st' = body_reads st + 1"
    using Fetcher_fetch_success(4)[OF f] s by simp
  moreover have "drain (raw resp) = Inr (closure_buffer resp)"
    by (rule Fetcher_fetch_success(2)[OF f])
  moreover note call_accessors_eq[of W resp as s, unfolded u]
  ultimately show ?thesis by blast
qed

text \<open>
  A run for C5: \<open>text()\<close>, \<open>buffer()\<close>, \<open>text()\<close>, \<open>json()\<close> on the response of the scenario.
\<close>

theorem body_read_once_accessors_from_buffer_witness:
  "Fetcher_fetch sample_constants (sample_world reset_twice_then_ok) items_url None initial_state
     = (Inr id_1_response, state_after 8000000 3)
   \<and> body_reads (state_after 8000000 3) = body_reads initial_state + 1
   \<and> call_accessors (sample_world reset_twice_then_ok) id_1_response
        [A_text, A_buffer, A_text, A_json] (state_after 8000000 3)
       = ([Inr (R_text id_1_body), Inr (R_buffer id_1_body), Inr (R_text id_1_body),
           Inr (R_json (JsObject [(''id'', JsNumber 1)]))], state_after 8000000 3)"
proof -
  note h = run_reset_twice_then_ok
  from body_read_once_accessors_from_buffer[OF h,
      of "[A_text, A_buffer, A_text, A_json]" "state_after 8000000 3"] h
  show ?thesis by (simp add: sample_world_def id_1_response_def)
qed

text \<open>
  C5 as stated fails on a body that is not JSON: \<open>fetch\<close> succeeds on the body \<open>oops\<close>, and
  of the calls \<open>text()\<close>, \<open>json()\<close>, \<open>text()\<close> the second one fails.
\<close>

theorem json_fails_counterexample:
  "Fetcher_fetch sample_constants (sample_world ok_not_json) items_url None initial_state
     = (Inr oops_response, state_after 4000000 1)
   \<and> call_accessors (sample_world ok_not_json) oops_response [A_text, A_json, A_text]
        (state_after 4000000 1)
       = ([Inr (R_text ''oops''),
           Inl ''Error parsing response from https://api.example.com/items. Status: 200. Body: oops. SyntaxError: Unexpected token o in JSON at position 0'',
           Inr (R_text ''oops'')], state_after 4000000 1)"
proof (intro conjI)
  show "Fetcher_fetch sample_constants (sample_world ok_not_json) items_url None initial_state
     = (Inr oops_response, state_after 4000000 1)"
    by (rule run_ok_not_json)
  show "call_accessors (sample_world ok_not_json) oops_response [A_text, A_json, A_text]
        (state_after 4000000 1)
       = ([Inr (R_text ''oops''),
           Inl ''Error parsing response from https://api.example.com/items. Status: 200. Body: oops. SyntaxError: Unexpected token o in JSON at position 0'',
           Inr (R_text ''oops'')], state_after 4000000 1)"
    by (simp add: call_accessor_def response_text_def response_json_def
        json_error_message_def oops_response_def sample_defs)
qed

subsection \<open>C6: the error of json()\<close>

text \<open>
  C6. When \<open>fetch\<close> has returned a response and \<open>JSON.parse\<close> rejects the decoded buffer,
  \<open>json()\<close> fails, in any state, with a message that contains the requested URL, the
  status code and the decoded body. The failure belongs to the call of \<open>json()\<close>: \<open>fetch\<close>
  itself returns the same response in the same state whatever the parser is.
\<close>

theorem json_failure_at_accessor_call:
  assumes "Fetcher_fetch C W url options st = (Inr resp, st')"
    and "JSON_parse W (Buffer_toString W (closure_buffer resp)) = Inl e"
  shows "response_json W resp s
           = (Inl (json_error_message url (status (raw resp))
                     (Buffer_toString W (closure_buffer resp)) e), s)
       \<and> sublist url
           (json_error_message url (status (raw resp)) (Buffer_toString W (closure_buffer resp)) e)
       \<and> sublist (show_nat (status (raw resp)))
           (json_error_message url (status (raw resp)) (Buffer_toString W (closure_buffer resp)) e)
       \<and> sublist (Buffer_toString W (closure_buffer resp))
           (json_error_message url (status (raw resp)) (Buffer_toString W (closure_buffer resp)) e)
       \<and> Fetcher_fetch C (W\<lparr>JSON_parse := p\<rparr>) url options st = (Inr resp, st')"
proof -
  from assms(1) have f: "fst (Fetcher_fetch C W url options st) = Inr resp" by simp
  have u: "closure_url resp = url" by (rule Fetcher_fetch_success(3)[OF f])
  have "response_json W resp s
           = (Inl (json_error_message url (status (raw resp))
                     (Buffer_toString W (closure_buffer resp)) e), s)"
    using assms(2) u by (simp add: response_json_def)
  moreover have "Fetcher_fetch C (W\<lparr>JSON_parse := p\<rparr>) url options st = (Inr resp, st')"
    unfolding Fetcher_fetch_ignores_JSON_parse by (rule assms(1))
  ultimately show ?thesis
    using sublist_json_url sublist_json_status sublist_json_body by blast
qed

text \<open>
  A run for C6: status 200 with the body \<open>oops\<close>.
\<close>

theorem json_failure_at_accessor_call_witness:
  "Fetcher_fetch sample_constants (sample_world ok_not_json) items_url None initial_state
     = (Inr oops_response, state_after 4000000 1)
   \<and> JSON_parse (sample_world ok_not_json)
        (Buffer_toString (sample_world ok_not_json) (closure_buffer oops_response))
       = Inl ''SyntaxError: Unexpected token o in JSON at position 0''
   \<and> response_json (sample_world ok_not_json) oops_response (state_after 4000000 1)
       = (Inl ''Error parsing response from https://api.example.com/items. Status: 200. Body: oops. SyntaxError: Unexpected token o in JSON at position 0'',
          state_after 4000000 1)"
proof -
  note h1 = run_ok_not_json
  have h2: "JSON_parse (sample_world ok_not_json)
        (Buffer_toString (sample_world ok_not_json) (closure_buffer oops_response))
       = Inl ''SyntaxError: Unexpected token o in JSON at position 0''"
    by (simp add: sample_defs oops_response_def)
  from json_failure_at_accessor_call[OF h1 h2, of "state_after 4000000 1"] h1 h2
  show ?thesis by (simp add: json_error_message_def oops_response_def sample_defs)
qed

subsection \<open>C7: when an observation is recorded\<close>

text \<open>
  C7, as amended. A call of \<open>fetch\<close> adds exactly one observation to the histogram when a
  tracker is registered, \<open>skipTrackRequest\<close> of the merged options is not truthy and
  \<open>new URL\<close> accepts the URL; in every other case it adds none. In particular a call with
  \<open>skipTrackRequest: true\<close> adds none, and a call made before any tracker is registered
  leaves the tracker unregistered and gives what the retrying transport and the read of the
  body give.
\<close>

theorem one_observation_iff_tracked:
  "(\<exists>new. observations (snd (Fetcher_fetch C W url options st)) = observations st @ new
        \<and> length new
            = (if metricsTracker st \<noteq> None
                  \<and> \<not> truthy (get_prop (mergedOptions_of C options st) ''skipTrackRequest'')
                  \<and> \<not> isl (URL_host W url)
               then 1 else 0))
   \<and> (metricsTracker st = None \<longrightarrow>
        metricsTracker (snd (Fetcher_fetch C W url options st)) = None
        \<and> fst (Fetcher_fetch C W url options st)
            = (case fst (private_fetch C W url (fst (Fetcher_setDefaultOptions C options st)) 1
                           (snd (Fetcher_setDefaultOptions C options st))) of
                 Inl e \<Rightarrow> Inl e
               | Inr r \<Rightarrow>
                   (case drain r of
                      Inl e \<Rightarrow> Inl e
                    | Inr b \<Rightarrow> Inr \<lparr>raw = r, closure_url = url, closure_buffer = b\<rparr>)))"
proof (intro conjI impI)
  have o: "observations (snd (Fetcher_fetch C W url options st))
          = observations (snd (call_stage C W url options st))"
    by (rule observations_cong) (simp add: Fetcher_fetch_frame try_stage_frame)
  have u: "(\<exists>h. URL_host W url = Inr h) = (\<not> isl (URL_host W url))"
    by (cases "URL_host W url") simp_all
  have s: "shouldTrackRequest_of C options st
             = (metricsTracker st \<noteq> None
                  \<and> \<not> truthy (get_prop (mergedOptions_of C options st) ''skipTrackRequest''))"
    by (auto simp: shouldTrackRequest_of_eq)
  show "\<exists>new. observations (snd (Fetcher_fetch C W url options st)) = observations st @ new
        \<and> length new
            = (if metricsTracker st \<noteq> None
                  \<and> \<not> truthy (get_prop (mergedOptions_of C options st) ''skipTrackRequest'')
                  \<and> \<not> isl (URL_host W url)
               then 1 else 0)"
  proof -
    define new where "new =
       (if shouldTrackRequest_of C options st \<and> (\<exists>h. URL_host W url = Inr h)
        then [\<lparr>ob_metric = ExternalHttpRequestDurationSeconds C,
               ob_labels = ob_labels (last (observations (snd (call_stage C W url options st)))),
               ob_ns = clock (snd (call_stage C W url options st)) - clock st\<rparr>]
        else [])"
    have "observations (snd (Fetcher_fetch C W url options st)) = observations st @ new"
      unfolding o new_def by (rule call_stage_observations)
    moreover have "length new
            = (if metricsTracker st \<noteq> None
                  \<and> \<not> truthy (get_prop (mergedOptions_of C options st) ''skipTrackRequest'')
                  \<and> \<not> isl (URL_host W url)
               then 1 else 0)"
      unfolding new_def u s by simp
    ultimately show ?thesis by blast
  qed
next
  assume n: "metricsTracker st = None"
  then have r: "shouldTrackRequest_of C options st \<longrightarrow> \<not> isl (URL_host W url)"
    by (simp add: shouldTrackRequest_of_eq)
  have "metricsTracker (snd (call_stage C W url options st)) = None"
    using n private_fetch_frame[of C W url "length (heap st)" 1 "after_merge C options st"]
    by (simp add: call_stage_eq fetch_call_def shouldTrackRequest_of_eq after_merge_simps)
  then show "metricsTracker (snd (Fetcher_fetch C W url options st)) = None"
    by (simp add: Fetcher_fetch_frame try_stage_frame)
  show "fst (Fetcher_fetch C W url options st)
            = (case fst (private_fetch C W url (fst (Fetcher_setDefaultOptions C options st)) 1
                           (snd (Fetcher_setDefaultOptions C options st))) of
                 Inl e \<Rightarrow> Inl e
               | Inr r \<Rightarrow>
                   (case drain r of
                      Inl e \<Rightarrow> Inl e
                    | Inr b \<Rightarrow> Inr \<lparr>raw = r, closure_url = url, closure_buffer = b\<rparr>))"
    using Fetcher_fetch_reaches(1)[OF r]
    by (simp add: after_merge_def Fetcher_setDefaultOptions_eq)
qed

text \<open>
  Runs for C7: a tracked call (one observation), a call with \<open>skipTrackRequest: true\<close> (none),
  and a call before registration (it succeeds).
\<close>

theorem one_observation_iff_tracked_witness:
  "length (observations (snd (Fetcher_fetch sample_constants (sample_world reset_twice_then_ok)
                                items_url (Some 0) (collectDefaultMetrics initial_state)))) = 1
   \<and> length (observations (snd (Fetcher_fetch sample_constants (sample_world reset_twice_then_ok)
                                items_url (Some 1) (collectDefaultMetrics initial_state)))) = 0
   \<and> metricsTracker initial_state = None
   \<and> fst (Fetcher_fetch sample_constants (sample_world reset_twice_then_ok) items_url (Some 0)
             initial_state) = Inr id_1_response"
proof -
  have a: "metricsTracker (collectDefaultMetrics initial_state) \<noteq> None
           \<and> \<not> truthy (get_prop (mergedOptions_of sample_constants (Some 0)
                                   (collectDefaultMetrics initial_state)) ''skipTrackRequest'')
           \<and> \<not> isl (URL_host (sample_world reset_twice_then_ok) items_url)"
    by (simp add: sample_defs model_defs)
  have b: "truthy (get_prop (mergedOptions_of sample_constants (Some 1)
                                   (collectDefaultMetrics initial_state)) ''skipTrackRequest'')"
    by (simp add: sample_defs model_defs)
  have c: "metricsTracker initial_state = None" by (simp add: sample_defs)
  have o: "observations (collectDefaultMetrics initial_state) = []"
    by (simp add: sample_defs model_defs)
  have p: "fst (private_fetch sample_constants (sample_world reset_twice_then_ok) items_url
                  (fst (Fetcher_setDefaultOptions sample_constants (Some 0) initial_state)) 1
                  (snd (Fetcher_setDefaultOptions sample_constants (Some 0) initial_state)))
             = Inr (response_with 200 id_1_body)"
    by (simp add: private_fetch.simps sample_defs model_defs)
  have d: "drain (response_with 200 id_1_body) = Inr id_1_body"
    by (simp add: sample_defs)
  from one_observation_iff_tracked[of sample_constants "sample_world reset_twice_then_ok"
      items_url "Some 0" "collectDefaultMetrics initial_state"] a o
  have 1: "length (observations (snd (Fetcher_fetch sample_constants
             (sample_world reset_twice_then_ok) items_url (Some 0)
             (collectDefaultMetrics initial_state)))) = 1"
    by auto
  from one_observation_iff_tracked[of sample_constants "sample_world reset_twice_then_ok"
      items_url "Some 1" "collectDefaultMetrics initial_state"] b o
  have 2: "length (observations (snd (Fetcher_fetch sample_constants
             (sample_world reset_twice_then_ok) items_url (Some 1)
             (collectDefaultMetrics initial_state)))) = 0"
    by auto
  from one_observation_iff_tracked[of sample_constants "sample_world reset_twice_then_ok"
      items_url "Some 0" initial_state] c p d
  have 3: "fst (Fetcher_fetch sample_constants (sample_world reset_twice_then_ok) items_url
                  (Some 0) initial_state) = Inr id_1_response"
    by (simp add: id_1_response_def)
  from 1 2 3 c show ?thesis by blast
qed

text \<open>
  C7 as stated fails on a URL that \<open>new URL\<close> rejects: a tracker is registered, the merged
  options do not set \<open>skipTrackRequest\<close>, and the call with the relative URL \<open>/items\<close> fails in
  line 36, before the tracker is called, with no observation recorded.
\<close>

theorem rejected_url_counterexample:
  "metricsTracker (collectDefaultMetrics initial_state) \<noteq> None
   \<and> \<not> truthy (get_prop (mergedOptions_of sample_constants None
                           (collectDefaultMetrics initial_state)) ''skipTrackRequest'')
   \<and> observations (snd (Fetcher_fetch sample_constants (sample_world reset_twice_then_ok)
                         ''/items'' None (collectDefaultMetrics initial_state))) = []
   \<and> fst (Fetcher_fetch sample_constants (sample_world reset_twice_then_ok)
            ''/items'' None (collectDefaultMetrics initial_state)) = Inl invalid_url"
  by (simp add: private_fetch.simps sample_defs model_defs)

subsection \<open>C8: a failure is logged once and thrown again\<close>

text \<open>
  C8. When the \<open>try\<close> block of \<open>fetch\<close> fails with the error \<open>e\<close>, at whatever step, \<open>fetch\<close>
  fails with \<open>e\<close> itself, and the call has logged exactly one error line, which contains the
  URL, the message of \<open>e\<close> and the whole seconds elapsed. The error is the one a collaborator
  threw: that of \<open>new URL\<close> on the tracked path, that of the last call of the transport, or
  that of the read of the body.
\<close>

theorem failure_logged_once_and_rethrown:
  assumes "fst (try_stage C W url options st) = Inl e"
  shows "fst (Fetcher_fetch C W url options st) = Inl e
       \<and> filter is_error (drop (length (logs st)) (logs (snd (Fetcher_fetch C W url options st))))
           = [Error (error_message url e
                       (hrtime_seconds (clock st) (snd (Fetcher_fetch C W url options st))))]
       \<and> sublist url (error_message url e n)
       \<and> sublist (message e) (error_message url e n)
       \<and> sublist (show_nat n) (error_message url e n)
       \<and> ((shouldTrackRequest_of C options st \<and> URL_host W url = Inl e)
          \<or> (outcome (node_fetch W url (mergedOptions_of C options st)
                         (calls (snd (Fetcher_fetch C W url options st)) - 1)) = Inl e)
          \<or> (\<exists>r. outcome (node_fetch W url (mergedOptions_of C options st)
                             (calls (snd (Fetcher_fetch C W url options st)) - 1)) = Inr r
                 \<and> drain r = Inl e))"
proof (intro conjI)
  show "fst (Fetcher_fetch C W url options st) = Inl e"
    using assms by (simp add: Fetcher_fetch_fst)
  show "filter is_error (drop (length (logs st)) (logs (snd (Fetcher_fetch C W url options st))))
           = [Error (error_message url e
                       (hrtime_seconds (clock st) (snd (Fetcher_fetch C W url options st))))]"
    using assms
    by (simp add: Fetcher_fetch_logs try_stage_logs hrtime_seconds_def Fetcher_fetch_frame
        split: sum.splits)
  show "sublist url (error_message url e n)" by (rule sublist_error_url)
  show "sublist (message e) (error_message url e n)" by (rule sublist_error_message)
  show "sublist (show_nat n) (error_message url e n)" by (rule sublist_error_secs)
  show "(shouldTrackRequest_of C options st \<and> URL_host W url = Inl e)
          \<or> (outcome (node_fetch W url (mergedOptions_of C options st)
                         (calls (snd (Fetcher_fetch C W url options st)) - 1)) = Inl e)
          \<or> (\<exists>r. outcome (node_fetch W url (mergedOptions_of C options st)
                             (calls (snd (Fetcher_fetch C W url options st)) - 1)) = Inr r
                 \<and> drain r = Inl e)"
  proof (cases "shouldTrackRequest_of C options st \<and> isl (URL_host W url)")
    case True
    then obtain e' where e': "URL_host W url = Inl e'" by (cases "URL_host W url") auto
    with True have "call_stage C W url options st = (Inl e', after_merge C options st)"
      by (simp add: call_stage_url_rejected)
    with assms have "e' = e" by (simp add: try_stage_fst)
    with True e' show ?thesis by simp
  next
    case False
    then have r: "shouldTrackRequest_of C options st \<longrightarrow> (\<exists>h. URL_host W url = Inr h)"
      by (cases "URL_host W url") auto
    let ?st0 = "after_merge C options st"
    let ?p = "private_fetch C W url (length (heap st)) 1 ?st0"
    have c: "calls (snd (Fetcher_fetch C W url options st)) = calls (snd ?p)"
      by (simp add: Fetcher_fetch_frame try_stage_frame call_stage_reaches(2)[OF r])
    have l: "fst ?p = outcome (node_fetch W url (mergedOptions_of C options st)
                                 (calls (snd ?p) - 1))"
      using private_fetch_last[of C W url "length (heap st)" 1 ?st0]
      by (simp add: after_merge_simps(2))
    have f: "fst (call_stage C W url options st) = fst ?p"
      by (rule call_stage_reaches(1)[OF r])
    show ?thesis
    proof (cases "fst ?p")
      case (Inl e')
      with assms f have "e' = e" by (simp add: try_stage_fst)
      with Inl l c show ?thesis by simp
    next
      case (Inr r')
      with assms f have "drain r' = Inl e" by (simp add: try_stage_fst split: sum.splits)
      with Inr l c show ?thesis by simp
    qed
  qed
qed

text \<open>
  A run for C8: the transport times out after ten seconds.
\<close>

theorem failure_logged_once_and_rethrown_witness:
  "fst (try_stage sample_constants (sample_world slow_timeout) items_url None initial_state)
     = Inl (request_timeout 0)
   \<and> fst (Fetcher_fetch sample_constants (sample_world slow_timeout) items_url None initial_state)
       = Inl (request_timeout 0)
   \<and> filter is_error
        (drop (length (logs initial_state))
           (logs (snd (Fetcher_fetch sample_constants (sample_world slow_timeout) items_url None
                         initial_state))))
       = [Error (''Failed request for https://api.example.com/items with '' @ [CHR 0x22]
                 @ ''network timeout'' @ [CHR 0x22] @ '' after 10 seconds'')]"
proof -
  have h: "fst (try_stage sample_constants (sample_world slow_timeout) items_url None
                  initial_state) = Inl (request_timeout 0)"
    by (simp add: private_fetch.simps sample_defs model_defs)
  have t: "hrtime_seconds (clock initial_state)
             (snd (Fetcher_fetch sample_constants (sample_world slow_timeout) items_url None
                     initial_state)) = 10"
    by (simp add: private_fetch.simps sample_defs model_defs)
  have m: "error_message items_url (request_timeout 0) 10
             = ''Failed request for https://api.example.com/items with '' @ [CHR 0x22]
                 @ ''network timeout'' @ [CHR 0x22] @ '' after 10 seconds''"
    by (simp add: sample_defs model_defs)
  from failure_logged_once_and_rethrown[OF h, of 10] h t m
  show ?thesis by simp
qed

subsection \<open>C9: the options of the caller\<close>

text \<open>
  C9. Whether \<open>fetch\<close> returns or fails, the objects that existed before the call are all
  unchanged after it, the options of the caller among them: the only change to the store is
  one new object, the merged options, at an address that was free.
\<close>

theorem caller_options_not_mutated:
  "heap (snd (Fetcher_fetch C W url options st)) = heap st @ [mergedOptions_of C options st]
   \<and> fst (Fetcher_setDefaultOptions C options st) = length (heap st)
   \<and> (\<forall>a. a < length (heap st) \<longrightarrow>
        obj_at (heap (snd (Fetcher_fetch C W url options st))) a = obj_at (heap st) a)"
proof (intro conjI allI impI)
  show h: "heap (snd (Fetcher_fetch C W url options st))
             = heap st @ [mergedOptions_of C options st]"
    by (simp add: Fetcher_fetch_frame try_stage_frame call_stage_frame)
  show "fst (Fetcher_setDefaultOptions C options st) = length (heap st)"
    by (simp add: Fetcher_setDefaultOptions_eq)
  fix a assume "a < length (heap st)"
  then show "obj_at (heap (snd (Fetcher_fetch C W url options st))) a = obj_at (heap st) a"
    by (simp add: h obj_at_def nth_append)
qed

text \<open>
  A run for C9: the caller passes the object at address 1, \<open>{skipTrackRequest: true}\<close>; after
  the call it is unchanged and the merged copy is a new object.
\<close>

theorem caller_options_not_mutated_witness:
  "(1::nat) < length (heap initial_state)
   \<and> obj_at (heap (snd (Fetcher_fetch sample_constants (sample_world reset_twice_then_ok) items_url
                         (Some 1) (collectDefaultMetrics initial_state)))) 1
       = [(''skipTrackRequest'', JBool True)]
   \<and> heap (snd (Fetcher_fetch sample_constants (sample_world reset_twice_then_ok) items_url
                  (Some 1) (collectDefaultMetrics initial_state)))
       = heap initial_state @ [[(''method'', JStr ''GET''), (''skipTrackRequest'', JBool True)]]"
proof -
  have l: "(1::nat) < length (heap (collectDefaultMetrics initial_state))"
    "(1::nat) < length (heap initial_state)"
    by (simp_all add: sample_defs model_defs)
  have h: "heap (collectDefaultMetrics initial_state) = heap initial_state"
    by (simp add: model_defs)
  have o: "obj_at (heap initial_state) 1 = [(''skipTrackRequest'', JBool True)]"
    by (simp add: sample_defs model_defs)
  have m: "mergedOptions_of sample_constants (Some 1) (collectDefaultMetrics initial_state)
             = [(''method'', JStr ''GET''), (''skipTrackRequest'', JBool True)]"
    by (simp add: sample_defs model_defs)
  note t = caller_options_not_mutated[of sample_constants "sample_world reset_twice_then_ok"
      items_url "Some 1" "collectDefaultMetrics initial_state"]
  from t l(1) have "obj_at (heap (snd (Fetcher_fetch sample_constants
        (sample_world reset_twice_then_ok) items_url (Some 1)
        (collectDefaultMetrics initial_state)))) 1
      = obj_at (heap (collectDefaultMetrics initial_state)) 1"
    by blast
  then have 1: "obj_at (heap (snd (Fetcher_fetch sample_constants
        (sample_world reset_twice_then_ok) items_url (Some 1)
        (collectDefaultMetrics initial_state)))) 1 = [(''skipTrackRequest'', JBool True)]"
    unfolding h o .
  from t have 2: "heap (snd (Fetcher_fetch sample_constants (sample_world reset_twice_then_ok)
        items_url (Some 1) (collectDefaultMetrics initial_state)))
       = heap initial_state @ [[(''method'', JStr ''GET''), (''skipTrackRequest'', JBool True)]]"
    unfolding h m by blast
  from l(2) 1 2 show ?thesis by blast
qed

subsection \<open>C10: a response is returned whatever its status\<close>

text \<open>
  C10. If the next call of the transport returns a response, the retrying transport returns
  that response after this one call, whatever the status code and the attempt number. And
  every call of the transport that is followed by another one within the same call of the
  retrying transport has thrown an error: nothing but an error starts a retry.
\<close>

theorem response_returned_without_retry:
  "(\<forall>r. outcome (node_fetch W url (obj_at (heap st) options) (calls st)) = Inr r \<longrightarrow>
        private_fetch C W url options retries st
          = (Inr r,
             st\<lparr>clock := clock st
                           + attempt_ns (node_fetch W url (obj_at (heap st) options) (calls st)),
                calls := calls st + 1\<rparr>))
   \<and> (\<forall>k. calls st \<le> k \<and> Suc k < calls (snd (private_fetch C W url options retries st))
          \<longrightarrow> isl (outcome (node_fetch W url (obj_at (heap st) options) k)))"
proof (intro conjI allI impI)
  fix r assume "outcome (node_fetch W url (obj_at (heap st) options) (calls st)) = Inr r"
  then show "private_fetch C W url options retries st
          = (Inr r,
             st\<lparr>clock := clock st
                           + attempt_ns (node_fetch W url (obj_at (heap st) options) (calls st)),
                calls := calls st + 1\<rparr>)"
    by (simp add: private_fetch_Inr after_attempt_def issue_def Let_def)
next
  fix k assume "calls st \<le> k \<and> Suc k < calls (snd (private_fetch C W url options retries st))"
  then show "isl (outcome (node_fetch W url (obj_at (heap st) options) k))"
    using private_fetch_retry_only_after_throw by blast
qed

text \<open>
  Runs for C10: a response with status 503 is returned after one call; in the scenario with
  two resets, the second call of the transport, which is followed by a third, threw.
\<close>

theorem response_returned_without_retry_witness:
  "private_fetch sample_constants (sample_world unavailable) items_url 0 1 initial_state
     = (Inr (response_with 503 ''Service Unavailable''),
        initial_state\<lparr>clock := 3000000, calls := 1\<rparr>)
   \<and> isl (outcome (node_fetch (sample_world reset_twice_then_ok) items_url
                     (obj_at (heap initial_state) 0) 1))"
proof -
  have a: "outcome (node_fetch (sample_world unavailable) items_url
                      (obj_at (heap initial_state) 0) (calls initial_state))
             = Inr (response_with 503 ''Service Unavailable'')"
    by (simp add: sample_defs model_defs)
  have b: "calls initial_state \<le> 1
           \<and> Suc 1 < calls (snd (private_fetch sample_constants (sample_world reset_twice_then_ok)
                                    items_url 0 1 initial_state))"
    by (simp add: private_fetch.simps sample_defs model_defs)
  from a b
    response_returned_without_retry[of "sample_world unavailable" items_url initial_state 0
      sample_constants 1]
    response_returned_without_retry[of "sample_world reset_twice_then_ok" items_url initial_state
      0 sample_constants 1]
  show ?thesis by (simp add: sample_defs model_defs)
qed

end
